theory Spec2Isabelle
  imports Complex_Main "HOL-Library.Sublist"
begin

section \<open>The token swap of \<^verbatim>\<open>src/exercise.ts\<close>\<close>

text \<open>
  \<^verbatim>\<open>performSwapAsync\<close> is one \<^verbatim>\<open>async\<close> function: a straight line of awaited calls to
  a token contract, to the 0x quote API and to an Ethereum node, with one explicit
  \<^verbatim>\<open>throw\<close>. The embedding keeps that shape. A run threads the list of the events it has
  caused so far (external calls, the alert, console output); an awaited call appends its
  event and asks the outside world, which sees everything that happened before, for the
  answer; a rejected promise and a \<^verbatim>\<open>throw\<close> end the run with \<open>Inl\<close>.
\<close>

subsection \<open>Numbers\<close>

text \<open>
  A JavaScript \<^verbatim>\<open>number\<close>. \<open>Finite q\<close> stands for the number that prints as the decimal
  \<open>q\<close>: that decimal is what \<^verbatim>\<open>BigNumber\<close> reads when it is handed a number. Printing
  keeps the order of numbers, so \<^verbatim>\<open><\<close> compares the decimals.
\<close>

datatype number = Finite rat | NaN | PosInfinity | NegInfinity

text \<open>The operator \<^verbatim>\<open><\<close> on numbers: every comparison with \<^verbatim>\<open>NaN\<close> is false.\<close>

fun js_lt :: "number \<Rightarrow> number \<Rightarrow> bool" where
  "js_lt NaN y = False"
| "js_lt x NaN = False"
| "js_lt (Finite a) (Finite b) = (a < b)"
| "js_lt (Finite a) PosInfinity = True"
| "js_lt NegInfinity (Finite b) = True"
| "js_lt NegInfinity PosInfinity = True"
| "js_lt x y = False"

text \<open>
  \<^verbatim>\<open>BigNumber\<close> (bignumber.js as configured by \<^verbatim>\<open>@0x/utils\<close>) is an arbitrary-precision
  decimal. Its finite values are rationals here, and integers where the library hands out
  whole numbers only (token amounts in base units). The package is not part of the
  repository; the four operations below follow its documented behaviour:
  rounding mode \<^verbatim>\<open>ROUND_HALF_UP\<close> (the default) and \<^verbatim>\<open>DECIMAL_PLACES: 78\<close> for division.
\<close>

type_synonym BigNumber = rat

text \<open>\<^verbatim>\<open>x.decimalPlaces(dp)\<close>: round to \<open>dp\<close> places, halves away from zero.\<close>

definition decimalPlaces :: "nat \<Rightarrow> BigNumber \<Rightarrow> BigNumber" where
  "decimalPlaces dp x =
     (if x < 0 then - (of_int \<lfloor>- x * 10 ^ dp + 1 / 2\<rfloor> / 10 ^ dp)
      else of_int \<lfloor>x * 10 ^ dp + 1 / 2\<rfloor> / 10 ^ dp)"

text \<open>\<^verbatim>\<open>x.div(y)\<close>: the quotient, rounded to the configured number of places.\<close>

definition DECIMAL_PLACES :: nat where
  "DECIMAL_PLACES = 78"

definition BigNumber_div :: "BigNumber \<Rightarrow> BigNumber \<Rightarrow> BigNumber" where
  "BigNumber_div x y = decimalPlaces DECIMAL_PLACES (x / y)"

text \<open>
  \<^verbatim>\<open>x.toNumber()\<close> is the double nearest to \<open>x\<close>. A decimal of at most 15 significant
  digits is read back from its double unchanged, so a value with at most two decimal places
  and below \<open>10\<^sup>1\<^sup>3\<close> in magnitude converts to the number that prints as that very value.
  This file applies \<^verbatim>\<open>toNumber()\<close> to values of two decimal places only. On longer values
  the result depends on the rounding to a double, which is not modelled: it is the
  parameter \<open>nearest\<close>, and everything proved holds for every choice of it.
\<close>

definition toNumber :: "(BigNumber \<Rightarrow> number) \<Rightarrow> BigNumber \<Rightarrow> number" where
  "toNumber nearest x =
     (if of_int \<lfloor>x * 100\<rfloor> = x * 100 \<and> \<bar>x * 100\<bar> < 10 ^ 15 then Finite x else nearest x)"

text \<open>
  \<^verbatim>\<open>x.toString()\<close> of a whole number: with \<^verbatim>\<open>EXPONENTIAL_AT: 1000\<close> the digits are written
  out in full, with a leading minus sign for a negative value.
\<close>

definition digit :: "nat \<Rightarrow> char" where
  "digit n = ''0123456789'' ! n"

fun digits :: "nat \<Rightarrow> string" where
  "digits n = (if n < 10 then [digit n] else digits (n div 10) @ [digit (n mod 10)])"

declare digits.simps [simp del]

definition BigNumber_toString :: "int \<Rightarrow> string" where
  "BigNumber_toString i = (if i < 0 then CHR ''-'' # digits (nat (- i)) else digits (nat i))"

text \<open>Reading a string of decimal digits back, to state that \<open>digits\<close> writes a number in base ten.\<close>

definition decimal_value :: "string \<Rightarrow> nat" where
  "decimal_value s = foldl (\<lambda>acc c. 10 * acc + (of_char c - 48)) 0 s"

text \<open>
  What it means for a string to be the decimal string of an integer, in words of its own
  and not through \<open>digits\<close>: an optional minus sign, then digits only, at least one, no
  leading zero unless the string is \<open>0\<close>, and the value read back is the magnitude.
\<close>

definition is_digit :: "char \<Rightarrow> bool" where
  "is_digit c = (c \<in> set ''0123456789'')"

definition is_decimal_string :: "string \<Rightarrow> int \<Rightarrow> bool" where
  "is_decimal_string s i =
     (let ds = (if i < 0 then tl s else s)
      in (i < 0 \<longrightarrow> s \<noteq> [] \<and> hd s = CHR ''-'') \<and>
         ds \<noteq> [] \<and>
         list_all is_digit ds \<and>
         (hd ds = CHR ''0'' \<longrightarrow> ds = ''0'') \<and>
         decimal_value ds = nat \<bar>i\<bar>)"

subsection \<open>Data\<close>

type_synonym address = string

text \<open>
  The module \<^verbatim>\<open>./misc\<close> (\<^verbatim>\<open>ERC20TokenContract\<close>, \<^verbatim>\<open>ZeroExSwapAPIParams\<close>,
  \<^verbatim>\<open>GetSwapQuoteResponse\<close>) is not among the sources. Its types are taken from their use in
  \<^verbatim>\<open>exercise.ts\<close>: the records below have the fields that this file reads or writes. Of
  the token wrapper this file reads the \<^verbatim>\<open>address\<close> and calls contract methods, which
  are external calls below.
\<close>

record ERC20TokenContract =
  address :: address

datatype SupportedProvider = Provider nat

datatype ChainId = Mainnet | Ropsten | Rinkeby | Kovan | Ganache

text \<open>
  What \<^verbatim>\<open>getContractAddressesForChainOrThrow\<close> returns; only \<^verbatim>\<open>erc20Proxy\<close> is read. The
  table of addresses belongs to the package \<^verbatim>\<open>@0x/contract-addresses\<close> and is a parameter
  of the model.
\<close>

record ContractAddresses =
  erc20Proxy :: address

definition zeroExDeployedAddresses :: "(ChainId \<Rightarrow> ContractAddresses) \<Rightarrow> ContractAddresses" where
  "zeroExDeployedAddresses getContractAddressesForChainOrThrow =
     getContractAddressesForChainOrThrow Kovan"

record ZeroExSwapAPIParams =
  buyToken :: string
  sellToken :: string
  sellAmount :: string
  takerAddress :: string

text \<open>
  The fields of a transaction that this file touches. The quote of the API carries them
  together with the orders; the object handed to \<^verbatim>\<open>sendTransactionAsync\<close> carries them
  together with \<^verbatim>\<open>from\<close>. The values are opaque to this file and kept as text.
\<close>

record TxFields =
  to :: string
  data :: string
  gas :: string
  gasPrice :: string
  value' :: string

type_synonym SignedOrder = string

record GetSwapQuoteResponse = TxFields +
  orders :: "SignedOrder list"

record TxData = TxFields +
  from' :: address

record TransactionReceipt =
  transactionHash :: string

subsection \<open>Events, errors and the outside world\<close>

datatype call =
    Decimals ERC20TokenContract
  | BalanceOf ERC20TokenContract address
  | Allowance ERC20TokenContract address address
  | Approve ERC20TokenContract address int address
  | HttpGet string ZeroExSwapAPIParams
  | SendTransaction SupportedProvider TxData
  | AwaitTransactionSuccess SupportedProvider string

datatype console_msg =
    LogReceipt TransactionReceipt
  | LogText string
  | LogTxData GetSwapQuoteResponse
  | LogOrders "SignedOrder list"

datatype event = Ext call | Alert string | ConsoleLog console_msg

type_synonym rejection = string

text \<open>
  How a run can fail, by where the failure starts: \<open>Error m\<close> is \<^verbatim>\<open>throw new Error(m)\<close>
  in this file, \<open>InvalidUnitAmount\<close> is the throw inside \<^verbatim>\<open>Web3Wrapper.toBaseUnitAmount\<close>,
  and \<open>Rejected r\<close> is an awaited external call whose promise was rejected with \<open>r\<close>.
\<close>

datatype error = Error string | InvalidUnitAmount number | Rejected rejection

text \<open>
  The outside world: for each kind of external call, its answer given the events of the
  run so far and the arguments of the call. \<open>Inl\<close> is a rejected promise. Contract reads
  answer with unsigned integers.
\<close>

record world =
  decimals_answer :: "event list \<Rightarrow> ERC20TokenContract \<Rightarrow> rejection + nat"
  balanceOf_answer :: "event list \<Rightarrow> ERC20TokenContract \<Rightarrow> address \<Rightarrow> rejection + nat"
  allowance_answer :: "event list \<Rightarrow> ERC20TokenContract \<Rightarrow> address \<Rightarrow> address \<Rightarrow> rejection + nat"
  approve_answer ::
    "event list \<Rightarrow> ERC20TokenContract \<Rightarrow> address \<Rightarrow> int \<Rightarrow> address \<Rightarrow> rejection + TransactionReceipt"
  get_answer :: "event list \<Rightarrow> string \<Rightarrow> ZeroExSwapAPIParams \<Rightarrow> rejection + GetSwapQuoteResponse"
  sendTransaction_answer :: "event list \<Rightarrow> SupportedProvider \<Rightarrow> TxData \<Rightarrow> rejection + string"
  awaitTransactionSuccess_answer ::
    "event list \<Rightarrow> SupportedProvider \<Rightarrow> string \<Rightarrow> rejection + TransactionReceipt"

subsection \<open>Sequencing\<close>

type_synonym 'a io = "event list \<Rightarrow> (error + 'a) \<times> event list"

definition return :: "'a \<Rightarrow> 'a io" where
  "return x = (\<lambda>h. (Inr x, h))"

definition throw :: "error \<Rightarrow> 'a io" where
  "throw e = (\<lambda>h. (Inl e, h))"

text \<open>\<open>await_then m f\<close>: run \<open>m\<close>; when it fails the failure is the result, otherwise go on with \<open>f\<close>.\<close>

definition await_then :: "'a io \<Rightarrow> ('a \<Rightarrow> 'b io) \<Rightarrow> 'b io" where
  "await_then m f = (\<lambda>h. case m h of (Inl e, h') \<Rightarrow> (Inl e, h') | (Inr x, h') \<Rightarrow> f x h')"

definition emit :: "event \<Rightarrow> unit io" where
  "emit ev = (\<lambda>h. (Inr (), h @ [ev]))"

text \<open>An external call: the world answers from the events before the call, the call is recorded.\<close>

definition external :: "call \<Rightarrow> (event list \<Rightarrow> rejection + 'a) \<Rightarrow> 'a io" where
  "external c answer =
     (\<lambda>h. ((case answer h of Inl r \<Rightarrow> Inl (Rejected r) | Inr v \<Rightarrow> Inr v), h @ [Ext c]))"

definition alert :: "string \<Rightarrow> unit io" where
  "alert msg = emit (Alert msg)"

definition console_log :: "console_msg \<Rightarrow> unit io" where
  "console_log m = emit (ConsoleLog m)"

subsection \<open>The external calls of the file\<close>

text \<open>\<^verbatim>\<open>(await token.decimals().callAsync()).toNumber()\<close>\<close>

definition decimals_callAsync :: "world \<Rightarrow> ERC20TokenContract \<Rightarrow> nat io" where
  "decimals_callAsync w token = external (Decimals token) (\<lambda>h. decimals_answer w h token)"

definition balanceOf_callAsync :: "world \<Rightarrow> ERC20TokenContract \<Rightarrow> address \<Rightarrow> nat io" where
  "balanceOf_callAsync w token owner =
     external (BalanceOf token owner) (\<lambda>h. balanceOf_answer w h token owner)"

definition allowance_callAsync :: "world \<Rightarrow> ERC20TokenContract \<Rightarrow> address \<Rightarrow> address \<Rightarrow> nat io" where
  "allowance_callAsync w token owner spender =
     external (Allowance token owner spender) (\<lambda>h. allowance_answer w h token owner spender)"

text \<open>\<^verbatim>\<open>token.approve(spender, amount).awaitTransactionSuccessAsync({ from })\<close>\<close>

definition approve_awaitTransactionSuccessAsync ::
  "world \<Rightarrow> ERC20TokenContract \<Rightarrow> address \<Rightarrow> int \<Rightarrow> address \<Rightarrow> TransactionReceipt io" where
  "approve_awaitTransactionSuccessAsync w token spender amount sender =
     external (Approve token spender amount sender)
       (\<lambda>h. approve_answer w h token spender amount sender)"

text \<open>\<^verbatim>\<open>axios.get(url, { params })\<close>; the result is the deserialized body, \<^verbatim>\<open>httpResponse.data\<close>.\<close>

definition axios_get :: "world \<Rightarrow> string \<Rightarrow> ZeroExSwapAPIParams \<Rightarrow> GetSwapQuoteResponse io" where
  "axios_get w url params = external (HttpGet url params) (\<lambda>h. get_answer w h url params)"

definition sendTransactionAsync :: "world \<Rightarrow> SupportedProvider \<Rightarrow> TxData \<Rightarrow> string io" where
  "sendTransactionAsync w client tx =
     external (SendTransaction client tx) (\<lambda>h. sendTransaction_answer w h client tx)"

definition awaitTransactionSuccessAsync ::
  "world \<Rightarrow> SupportedProvider \<Rightarrow> string \<Rightarrow> TransactionReceipt io" where
  "awaitTransactionSuccessAsync w client txHash =
     external (AwaitTransactionSuccess client txHash)
       (\<lambda>h. awaitTransactionSuccess_answer w h client txHash)"

subsection \<open>\<^verbatim>\<open>Web3Wrapper\<close>'s unit conversions\<close>

text \<open>
  \<^verbatim>\<open>Web3Wrapper.toUnitAmount(amount, decimals)\<close> is \<^verbatim>\<open>amount.div(10 ** decimals)\<close>; its
  assertion that \<open>amount\<close> is a non-negative whole number holds for every contract answer.
\<close>

definition toUnitAmount :: "nat \<Rightarrow> nat \<Rightarrow> BigNumber" where
  "toUnitAmount amount decimals = BigNumber_div (of_nat amount) (10 ^ decimals)"

text \<open>
  \<^verbatim>\<open>Web3Wrapper.toBaseUnitAmount(amount, decimals)\<close> multiplies by \<^verbatim>\<open>10 ** decimals\<close> and
  throws when the product is not a whole number; the product with \<^verbatim>\<open>NaN\<close> or an infinity
  has no decimal places to count and throws as well.
\<close>

definition toBaseUnitAmount :: "number \<Rightarrow> nat \<Rightarrow> error + int" where
  "toBaseUnitAmount amount decimals =
     (case amount of
        Finite a \<Rightarrow>
          (let unit = 10 ^ decimals;
               baseUnitAmount = unit * a;
               hasDecimals = (of_int \<lfloor>baseUnitAmount\<rfloor> \<noteq> baseUnitAmount)
           in if hasDecimals then Inl (InvalidUnitAmount amount) else Inr \<lfloor>baseUnitAmount\<rfloor>)
      | _ \<Rightarrow> Inl (InvalidUnitAmount amount))"

definition lift :: "error + 'a \<Rightarrow> 'a io" where
  "lift r = (case r of Inl e \<Rightarrow> throw e | Inr v \<Rightarrow> return v)"

subsection \<open>The two functions of the file\<close>

text \<open>
  The two console banners of step 3 end with a pictograph in the source; the strings here
  stop before it.
\<close>

definition convertValueFromHumanToEthereum :: "world \<Rightarrow> ERC20TokenContract \<Rightarrow> number \<Rightarrow> int io" where
  "convertValueFromHumanToEthereum w tokenWrapper unitAmount =
     await_then (decimals_callAsync w tokenWrapper) (\<lambda>decimals.
     lift (toBaseUnitAmount unitAmount decimals))"

definition performSwapAsync ::
  "(BigNumber \<Rightarrow> number) \<Rightarrow> (ChainId \<Rightarrow> ContractAddresses) \<Rightarrow> world \<Rightarrow> ERC20TokenContract \<Rightarrow> ERC20TokenContract \<Rightarrow>
     number \<Rightarrow> address \<Rightarrow> SupportedProvider \<Rightarrow> unit io" where
  "performSwapAsync nearest addrs w buyTokenWrapper sellTokenWrapper amountToSellUnitAmount fromAddress provider =
     await_then (decimals_callAsync w sellTokenWrapper) (\<lambda>decimals.
     await_then (balanceOf_callAsync w sellTokenWrapper fromAddress) (\<lambda>balance.
     let tokenBalance = toNumber nearest (decimalPlaces 2 (toUnitAmount balance decimals)) in
     if js_lt tokenBalance amountToSellUnitAmount then
       await_then (alert ''Not Enough Balance'') (\<lambda>_.
       throw (Error ''Not Enough Balance''))
     else
     await_then (allowance_callAsync w sellTokenWrapper fromAddress
                   (erc20Proxy (zeroExDeployedAddresses addrs))) (\<lambda>granted.
     let allowance = toNumber nearest (decimalPlaces 2 (toUnitAmount granted decimals)) in
     await_then
       (if js_lt allowance amountToSellUnitAmount then
          await_then (decimals_callAsync w sellTokenWrapper) (\<lambda>decimals'.
          await_then (lift (toBaseUnitAmount amountToSellUnitAmount decimals')) (\<lambda>amount.
          await_then (approve_awaitTransactionSuccessAsync w sellTokenWrapper
                        (erc20Proxy (zeroExDeployedAddresses addrs)) amount fromAddress) (\<lambda>tx.
          console_log (LogReceipt tx))))
        else return ()) (\<lambda>_.
     await_then (convertValueFromHumanToEthereum w sellTokenWrapper amountToSellUnitAmount) (\<lambda>converted.
     let sellAmountInBaseUnits = BigNumber_toString converted;
         url = ''https://kovan.api.0x.org/swap/v0/quote'';
         params = \<lparr>buyToken = address buyTokenWrapper,
                   sellToken = address sellTokenWrapper,
                   sellAmount = sellAmountInBaseUnits,
                   takerAddress = fromAddress\<rparr> in
     await_then (axios_get w url params) (\<lambda>txData.
     await_then (console_log (LogText ''Ethereum transaction generated by the 0x API: '')) (\<lambda>_.
     await_then (console_log (LogTxData txData)) (\<lambda>_.
     await_then (console_log (LogText ''Orders used to perform the swap '')) (\<lambda>_.
     await_then (console_log (LogOrders (orders txData))) (\<lambda>_.
     let client = provider in
     await_then (sendTransactionAsync w client
                   \<lparr>to = to txData, data = data txData, gas = gas txData,
                    gasPrice = gasPrice txData, value' = value' txData,
                    from' = fromAddress\<rparr>) (\<lambda>tx.
     await_then (awaitTransactionSuccessAsync w client tx) (\<lambda>receipt.
     console_log (LogText (''Transaction '' @ transactionHash receipt @ '' was mined successfully'')))
     )))))))))))"

subsection \<open>The four steps of \<^verbatim>\<open>performSwapAsync\<close>, one at a time\<close>

text \<open>
  The source marks four steps in comments. The three definitions below cut the body of
  \<open>performSwapAsync\<close> at those marks (steps 3 and 4 together); \<open>performSwapAsync_steps\<close>
  proves that their composition is the function itself.
\<close>

definition check_balance :: "(BigNumber \<Rightarrow> number) \<Rightarrow> world \<Rightarrow> ERC20TokenContract \<Rightarrow> number \<Rightarrow> address \<Rightarrow> nat io" where
  "check_balance nearest w sellTokenWrapper amountToSellUnitAmount fromAddress =
     await_then (decimals_callAsync w sellTokenWrapper) (\<lambda>decimals.
     await_then (balanceOf_callAsync w sellTokenWrapper fromAddress) (\<lambda>balance.
     let tokenBalance = toNumber nearest (decimalPlaces 2 (toUnitAmount balance decimals)) in
     if js_lt tokenBalance amountToSellUnitAmount then
       await_then (alert ''Not Enough Balance'') (\<lambda>_.
       throw (Error ''Not Enough Balance''))
     else return decimals))"

definition ensure_allowance ::
  "(BigNumber \<Rightarrow> number) \<Rightarrow> (ChainId \<Rightarrow> ContractAddresses) \<Rightarrow> world \<Rightarrow> ERC20TokenContract \<Rightarrow> number \<Rightarrow> address \<Rightarrow>
     nat \<Rightarrow> unit io" where
  "ensure_allowance nearest addrs w sellTokenWrapper amountToSellUnitAmount fromAddress decimals =
     await_then (allowance_callAsync w sellTokenWrapper fromAddress
                   (erc20Proxy (zeroExDeployedAddresses addrs))) (\<lambda>granted.
     let allowance = toNumber nearest (decimalPlaces 2 (toUnitAmount granted decimals)) in
     if js_lt allowance amountToSellUnitAmount then
       await_then (decimals_callAsync w sellTokenWrapper) (\<lambda>decimals'.
       await_then (lift (toBaseUnitAmount amountToSellUnitAmount decimals')) (\<lambda>amount.
       await_then (approve_awaitTransactionSuccessAsync w sellTokenWrapper
                     (erc20Proxy (zeroExDeployedAddresses addrs)) amount fromAddress) (\<lambda>tx.
       console_log (LogReceipt tx))))
     else return ())"

definition quote_and_fill ::
  "world \<Rightarrow> ERC20TokenContract \<Rightarrow> ERC20TokenContract \<Rightarrow> number \<Rightarrow> address \<Rightarrow>
     SupportedProvider \<Rightarrow> unit io" where
  "quote_and_fill w buyTokenWrapper sellTokenWrapper amountToSellUnitAmount fromAddress provider =
     await_then (convertValueFromHumanToEthereum w sellTokenWrapper amountToSellUnitAmount) (\<lambda>converted.
     await_then (axios_get w ''https://kovan.api.0x.org/swap/v0/quote''
                  \<lparr>buyToken = address buyTokenWrapper,
                   sellToken = address sellTokenWrapper,
                   sellAmount = BigNumber_toString converted,
                   takerAddress = fromAddress\<rparr>) (\<lambda>txData.
     await_then (console_log (LogText ''Ethereum transaction generated by the 0x API: '')) (\<lambda>_.
     await_then (console_log (LogTxData txData)) (\<lambda>_.
     await_then (console_log (LogText ''Orders used to perform the swap '')) (\<lambda>_.
     await_then (console_log (LogOrders (orders txData))) (\<lambda>_.
     await_then (sendTransactionAsync w provider
                   \<lparr>to = to txData, data = data txData, gas = gas txData,
                    gasPrice = gasPrice txData, value' = value' txData,
                    from' = fromAddress\<rparr>) (\<lambda>tx.
     await_then (awaitTransactionSuccessAsync w provider tx) (\<lambda>receipt.
     console_log (LogText (''Transaction '' @ transactionHash receipt @ '' was mined successfully'')))
     )))))))"

text \<open>The events of a run that has got past the balance check and the allowance step.\<close>

definition past_allowance ::
  "(BigNumber \<Rightarrow> number) \<Rightarrow> (ChainId \<Rightarrow> ContractAddresses) \<Rightarrow> world \<Rightarrow> ERC20TokenContract \<Rightarrow> number \<Rightarrow> address \<Rightarrow>
     event list \<Rightarrow> bool" where
  "past_allowance nearest addrs w sell amt sender h =
     (let proxy = erc20Proxy (zeroExDeployedAddresses addrs);
          front = [Ext (Decimals sell), Ext (BalanceOf sell sender), Ext (Allowance sell sender proxy)]
      in \<exists>d b g.
           decimals_answer w [] sell = Inr d \<and>
           balanceOf_answer w [Ext (Decimals sell)] sell sender = Inr b \<and>
           \<not> js_lt (toNumber nearest (decimalPlaces 2 (toUnitAmount b d))) amt \<and>
           allowance_answer w [Ext (Decimals sell), Ext (BalanceOf sell sender)] sell sender proxy = Inr g \<and>
           (if js_lt (toNumber nearest (decimalPlaces 2 (toUnitAmount g d))) amt
            then \<exists>d' x tx.
                   decimals_answer w front sell = Inr d' \<and>
                   toBaseUnitAmount amt d' = Inr x \<and>
                   approve_answer w (front @ [Ext (Decimals sell)]) sell proxy x sender = Inr tx \<and>
                   h = front @ [Ext (Decimals sell), Ext (Approve sell proxy x sender),
                                ConsoleLog (LogReceipt tx)]
            else h = front))"

subsection \<open>Observing a run\<close>

text \<open>The external calls among the events, in order.\<close>

fun calls_of :: "event list \<Rightarrow> call list" where
  "calls_of [] = []"
| "calls_of (Ext c # es) = c # calls_of es"
| "calls_of (e # es) = calls_of es"

datatype call_kind =
    KDecimals | KBalanceOf | KAllowance | KApprove | KHttpGet | KSendTransaction
  | KAwaitTransactionSuccess

fun kind_of :: "call \<Rightarrow> call_kind" where
  "kind_of (Decimals token) = KDecimals"
| "kind_of (BalanceOf token owner) = KBalanceOf"
| "kind_of (Allowance token owner spender) = KAllowance"
| "kind_of (Approve token spender amount sender) = KApprove"
| "kind_of (HttpGet url params) = KHttpGet"
| "kind_of (SendTransaction client tx) = KSendTransaction"
| "kind_of (AwaitTransactionSuccess client txHash) = KAwaitTransactionSuccess"

definition kinds :: "event list \<Rightarrow> call_kind list" where
  "kinds tr = map kind_of (calls_of tr)"

text \<open>
  The four steps the specification lists: blockchain reads, the approval, the HTTP
  request, the submission of the transaction (with the wait for its receipt).
\<close>

fun step_of :: "call_kind \<Rightarrow> nat" where
  "step_of KDecimals = 1"
| "step_of KBalanceOf = 1"
| "step_of KAllowance = 1"
| "step_of KApprove = 2"
| "step_of KHttpGet = 3"
| "step_of KSendTransaction = 4"
| "step_of KAwaitTransactionSuccess = 4"

text \<open>What the world answers to a call, whatever its kind.\<close>

datatype answer = Number nat | Receipt TransactionReceipt | Quote GetSwapQuoteResponse | TxHash string

fun world_answer :: "world \<Rightarrow> event list \<Rightarrow> call \<Rightarrow> rejection + answer" where
  "world_answer w h (Decimals token) = map_sum id Number (decimals_answer w h token)"
| "world_answer w h (BalanceOf token owner) = map_sum id Number (balanceOf_answer w h token owner)"
| "world_answer w h (Allowance token owner spender) =
     map_sum id Number (allowance_answer w h token owner spender)"
| "world_answer w h (Approve token spender amount sender) =
     map_sum id Receipt (approve_answer w h token spender amount sender)"
| "world_answer w h (HttpGet url params) = map_sum id Quote (get_answer w h url params)"
| "world_answer w h (SendTransaction client tx) =
     map_sum id TxHash (sendTransaction_answer w h client tx)"
| "world_answer w h (AwaitTransactionSuccess client txHash) =
     map_sum id Receipt (awaitTransactionSuccess_answer w h client txHash)"

text \<open>
  \<open>answers w h tr\<close>: the answers of world \<open>w\<close> to the external calls of \<open>tr\<close>, in order,
  when \<open>tr\<close> happens after \<open>h\<close>.
\<close>

fun answers :: "world \<Rightarrow> event list \<Rightarrow> event list \<Rightarrow> (rejection + answer) list" where
  "answers w h [] = []"
| "answers w h (Ext c # es) = world_answer w h c # answers w (h @ [Ext c]) es"
| "answers w h (e # es) = answers w (h @ [e]) es"

subsection \<open>Example worlds\<close>

definition example_addresses :: "ChainId \<Rightarrow> ContractAddresses" where
  "example_addresses chain = \<lparr>erc20Proxy = ''0xproxy''\<rparr>"

definition example_quote :: GetSwapQuoteResponse where
  "example_quote = \<lparr>to = ''0xexchange'', data = ''0xd9627aa4'', gas = ''500000'',
                     gasPrice = ''2000000000'', value' = ''0'', orders = [''order'']\<rparr>"

text \<open>A world whose answers do not depend on what happened before.\<close>

definition steady_world :: "nat \<Rightarrow> nat \<Rightarrow> nat \<Rightarrow> world" where
  "steady_world dec bal granted =
     \<lparr>decimals_answer = (\<lambda>h token. Inr dec),
      balanceOf_answer = (\<lambda>h token owner. Inr bal),
      allowance_answer = (\<lambda>h token owner spender. Inr granted),
      approve_answer = (\<lambda>h token spender amount sender. Inr \<lparr>transactionHash = ''0xa''\<rparr>),
      get_answer = (\<lambda>h url params. Inr example_quote),
      sendTransaction_answer = (\<lambda>h client tx. Inr ''0xb''),
      awaitTransactionSuccess_answer = (\<lambda>h client txHash. Inr \<lparr>transactionHash = txHash\<rparr>)\<rparr>"

definition dai :: ERC20TokenContract where
  "dai = \<lparr>address = ''0xdai''\<rparr>"

definition weth :: ERC20TokenContract where
  "weth = \<lparr>address = ''0xweth''\<rparr>"

text \<open>
  A rounding to hand to the example runs. None of them reaches it: their balances and
  allowances have two decimal places and few digits, where \<open>toNumber\<close> does not ask.
\<close>

definition unused_nearest :: "BigNumber \<Rightarrow> number" where
  "unused_nearest x = NaN"

text \<open>The steady world with the quote API down, and with approvals refused.\<close>

definition quote_down_world :: world where
  "quote_down_world = (steady_world 3 10000 10000)\<lparr>get_answer := (\<lambda>h url params. Inl ''503'')\<rparr>"

definition approval_refusing_world :: world where
  "approval_refusing_world =
     (steady_world 3 10000 10000)
       \<lparr>approve_answer := (\<lambda>h token spender amount sender. Inl ''denied'')\<rparr>"

section \<open>How a run unfolds\<close>

lemma await_then_assoc:
  "await_then (await_then m f) g = await_then m (\<lambda>x. await_then (f x) g)"
  by (rule ext) (simp add: await_then_def split: prod.splits sum.splits)

lemma await_then_if:
  "await_then (if b then m else n) f = (if b then await_then m f else await_then n f)"
  by simp

lemma await_then_return: "await_then (return x) f = f x"
  by (rule ext) (simp add: await_then_def return_def)

lemma await_then_throw: "await_then (throw e) f = throw e"
  by (rule ext) (simp add: await_then_def throw_def)

lemma performSwapAsync_steps:
  "performSwapAsync nearest addrs w buy sell amt sender prov =
     await_then (check_balance nearest w sell amt sender) (\<lambda>decimals.
     await_then (ensure_allowance nearest addrs w sell amt sender decimals) (\<lambda>_.
     quote_and_fill w buy sell amt sender prov))"
  unfolding performSwapAsync_def check_balance_def ensure_allowance_def quote_and_fill_def Let_def
  by (simp add: await_then_assoc await_then_if await_then_return await_then_throw cong: if_cong)


lemmas io_defs = return_def throw_def await_then_def emit_def external_def alert_def console_log_def
  decimals_callAsync_def balanceOf_callAsync_def allowance_callAsync_def
  approve_awaitTransactionSuccessAsync_def axios_get_def sendTransactionAsync_def
  awaitTransactionSuccessAsync_def lift_def convertValueFromHumanToEthereum_def

lemma check_balance_run:
  "check_balance nearest w sell amt sender h =
     (case decimals_answer w h sell of
        Inl r \<Rightarrow> (Inl (Rejected r), h @ [Ext (Decimals sell)])
      | Inr d \<Rightarrow>
         (case balanceOf_answer w (h @ [Ext (Decimals sell)]) sell sender of
            Inl r \<Rightarrow> (Inl (Rejected r), h @ [Ext (Decimals sell), Ext (BalanceOf sell sender)])
          | Inr b \<Rightarrow>
             if js_lt (toNumber nearest (decimalPlaces 2 (toUnitAmount b d))) amt
             then (Inl (Error ''Not Enough Balance''),
                   h @ [Ext (Decimals sell), Ext (BalanceOf sell sender), Alert ''Not Enough Balance''])
             else (Inr d, h @ [Ext (Decimals sell), Ext (BalanceOf sell sender)])))"
  by (simp add: check_balance_def io_defs Let_def split: sum.splits)

lemma ensure_allowance_run:
  "ensure_allowance nearest addrs w sell amt sender d h =
     (let proxy = erc20Proxy (zeroExDeployedAddresses addrs);
          h1 = h @ [Ext (Allowance sell sender proxy)] in
      case allowance_answer w h sell sender proxy of
        Inl r \<Rightarrow> (Inl (Rejected r), h1)
      | Inr g \<Rightarrow>
         if js_lt (toNumber nearest (decimalPlaces 2 (toUnitAmount g d))) amt then
           (case decimals_answer w h1 sell of
              Inl r \<Rightarrow> (Inl (Rejected r), h1 @ [Ext (Decimals sell)])
            | Inr d' \<Rightarrow>
               (case toBaseUnitAmount amt d' of
                  Inl e \<Rightarrow> (Inl e, h1 @ [Ext (Decimals sell)])
                | Inr x \<Rightarrow>
                   (case approve_answer w (h1 @ [Ext (Decimals sell)]) sell proxy x sender of
                      Inl r \<Rightarrow>
                        (Inl (Rejected r),
                         h1 @ [Ext (Decimals sell), Ext (Approve sell proxy x sender)])
                    | Inr tx \<Rightarrow>
                        (Inr (),
                         h1 @ [Ext (Decimals sell), Ext (Approve sell proxy x sender),
                               ConsoleLog (LogReceipt tx)]))))
         else (Inr (), h1))"
  by (simp add: ensure_allowance_def io_defs Let_def split: sum.splits)

lemma quote_and_fill_run:
  "quote_and_fill w buy sell amt sender prov h =
     (let h1 = h @ [Ext (Decimals sell)] in
      case decimals_answer w h sell of
        Inl r \<Rightarrow> (Inl (Rejected r), h1)
      | Inr d \<Rightarrow>
         (case toBaseUnitAmount amt d of
            Inl e \<Rightarrow> (Inl e, h1)
          | Inr x \<Rightarrow>
             (let p = \<lparr>buyToken = address buy, sellToken = address sell,
                       sellAmount = BigNumber_toString x, takerAddress = sender\<rparr>;
                  h2 = h1 @ [Ext (HttpGet ''https://kovan.api.0x.org/swap/v0/quote'' p)] in
              case get_answer w h1 ''https://kovan.api.0x.org/swap/v0/quote'' p of
                Inl r \<Rightarrow> (Inl (Rejected r), h2)
              | Inr q \<Rightarrow>
                 (let tx = \<lparr>to = to q, data = data q, gas = gas q, gasPrice = gasPrice q,
                            value' = value' q, from' = sender\<rparr>;
                      h3 = h2 @ [ConsoleLog (LogText ''Ethereum transaction generated by the 0x API: ''),
                                 ConsoleLog (LogTxData q),
                                 ConsoleLog (LogText ''Orders used to perform the swap ''),
                                 ConsoleLog (LogOrders (orders q))];
                      h4 = h3 @ [Ext (SendTransaction prov tx)] in
                  case sendTransaction_answer w h3 prov tx of
                    Inl r \<Rightarrow> (Inl (Rejected r), h4)
                  | Inr txHash \<Rightarrow>
                     (case awaitTransactionSuccess_answer w h4 prov txHash of
                        Inl r \<Rightarrow> (Inl (Rejected r), h4 @ [Ext (AwaitTransactionSuccess prov txHash)])
                      | Inr receipt \<Rightarrow>
                         (Inr (),
                          h4 @ [Ext (AwaitTransactionSuccess prov txHash),
                                ConsoleLog (LogText (''Transaction '' @ transactionHash receipt @
                                                     '' was mined successfully''))]))))))"
  by (simp add: quote_and_fill_def io_defs Let_def split: sum.splits)

lemma toBaseUnitAmount_error:
  "toBaseUnitAmount amt d = Inl e \<Longrightarrow> e = InvalidUnitAmount amt"
  by (auto simp: toBaseUnitAmount_def Let_def split: number.splits if_splits)

lemmas run_simps = performSwapAsync_steps await_then_def check_balance_run ensure_allowance_run
  quote_and_fill_run Let_def

lemma front_cases [case_names decimals_rejected balanceOf_rejected not_enough_balance
    allowance_rejected approval_decimals_rejected approval_invalid_amount approve_rejected proceeds]:
  fixes nearest addrs w buy sell amt sender prov
  defines "run \<equiv> performSwapAsync nearest addrs w buy sell amt sender prov []"
    and "proxy \<equiv> erc20Proxy (zeroExDeployedAddresses addrs)"
  obtains
    r where "decimals_answer w [] sell = Inl r"
      and "run = (Inl (Rejected r), [Ext (Decimals sell)])"
  | d r where "decimals_answer w [] sell = Inr d"
      and "balanceOf_answer w [Ext (Decimals sell)] sell sender = Inl r"
      and "run = (Inl (Rejected r), [Ext (Decimals sell), Ext (BalanceOf sell sender)])"
  | d b where "decimals_answer w [] sell = Inr d"
      and "balanceOf_answer w [Ext (Decimals sell)] sell sender = Inr b"
      and "js_lt (toNumber nearest (decimalPlaces 2 (toUnitAmount b d))) amt"
      and "run = (Inl (Error ''Not Enough Balance''),
                  [Ext (Decimals sell), Ext (BalanceOf sell sender), Alert ''Not Enough Balance''])"
  | d b r where "decimals_answer w [] sell = Inr d"
      and "balanceOf_answer w [Ext (Decimals sell)] sell sender = Inr b"
      and "\<not> js_lt (toNumber nearest (decimalPlaces 2 (toUnitAmount b d))) amt"
      and "allowance_answer w [Ext (Decimals sell), Ext (BalanceOf sell sender)] sell sender proxy = Inl r"
      and "run = (Inl (Rejected r),
                  [Ext (Decimals sell), Ext (BalanceOf sell sender), Ext (Allowance sell sender proxy)])"
  | d b g r where "decimals_answer w [] sell = Inr d"
      and "balanceOf_answer w [Ext (Decimals sell)] sell sender = Inr b"
      and "\<not> js_lt (toNumber nearest (decimalPlaces 2 (toUnitAmount b d))) amt"
      and "allowance_answer w [Ext (Decimals sell), Ext (BalanceOf sell sender)] sell sender proxy = Inr g"
      and "js_lt (toNumber nearest (decimalPlaces 2 (toUnitAmount g d))) amt"
      and "decimals_answer w [Ext (Decimals sell), Ext (BalanceOf sell sender),
                              Ext (Allowance sell sender proxy)] sell = Inl r"
      and "run = (Inl (Rejected r),
                  [Ext (Decimals sell), Ext (BalanceOf sell sender), Ext (Allowance sell sender proxy),
                   Ext (Decimals sell)])"
  | d b g d' where "decimals_answer w [] sell = Inr d"
      and "balanceOf_answer w [Ext (Decimals sell)] sell sender = Inr b"
      and "\<not> js_lt (toNumber nearest (decimalPlaces 2 (toUnitAmount b d))) amt"
      and "allowance_answer w [Ext (Decimals sell), Ext (BalanceOf sell sender)] sell sender proxy = Inr g"
      and "js_lt (toNumber nearest (decimalPlaces 2 (toUnitAmount g d))) amt"
      and "decimals_answer w [Ext (Decimals sell), Ext (BalanceOf sell sender),
                              Ext (Allowance sell sender proxy)] sell = Inr d'"
      and "toBaseUnitAmount amt d' = Inl (InvalidUnitAmount amt)"
      and "run = (Inl (InvalidUnitAmount amt),
                  [Ext (Decimals sell), Ext (BalanceOf sell sender), Ext (Allowance sell sender proxy),
                   Ext (Decimals sell)])"
  | d b g d' x r where "decimals_answer w [] sell = Inr d"
      and "balanceOf_answer w [Ext (Decimals sell)] sell sender = Inr b"
      and "\<not> js_lt (toNumber nearest (decimalPlaces 2 (toUnitAmount b d))) amt"
      and "allowance_answer w [Ext (Decimals sell), Ext (BalanceOf sell sender)] sell sender proxy = Inr g"
      and "js_lt (toNumber nearest (decimalPlaces 2 (toUnitAmount g d))) amt"
      and "decimals_answer w [Ext (Decimals sell), Ext (BalanceOf sell sender),
                              Ext (Allowance sell sender proxy)] sell = Inr d'"
      and "toBaseUnitAmount amt d' = Inr x"
      and "approve_answer w [Ext (Decimals sell), Ext (BalanceOf sell sender),
                             Ext (Allowance sell sender proxy), Ext (Decimals sell)]
             sell proxy x sender = Inl r"
      and "run = (Inl (Rejected r),
                  [Ext (Decimals sell), Ext (BalanceOf sell sender), Ext (Allowance sell sender proxy),
                   Ext (Decimals sell), Ext (Approve sell proxy x sender)])"
  | h where "past_allowance nearest addrs w sell amt sender h"
      and "run = quote_and_fill w buy sell amt sender prov h"
proof (cases "decimals_answer w [] sell")
  case (Inl r)
  then show thesis
    using that(1) by (simp add: run_def run_simps)
next
  case d: (Inr d)
  show thesis
  proof (cases "balanceOf_answer w [Ext (Decimals sell)] sell sender")
    case (Inl r)
    then show thesis
      using that(2) d by (simp add: run_def run_simps)
  next
    case b: (Inr b)
    show thesis
    proof (cases "js_lt (toNumber nearest (decimalPlaces 2 (toUnitAmount b d))) amt")
      case True
      then show thesis
        using that(3) d b by (simp add: run_def run_simps)
    next
      case enough: False
      show thesis
      proof (cases "allowance_answer w [Ext (Decimals sell), Ext (BalanceOf sell sender)] sell sender proxy")
        case (Inl r)
        then show thesis
          using that(4) d b enough by (simp add: run_def proxy_def run_simps)
      next
        case g: (Inr g)
        show thesis
        proof (cases "js_lt (toNumber nearest (decimalPlaces 2 (toUnitAmount g d))) amt")
          case False
          then show thesis
            using that(8) d b enough g
            by (simp add: run_def proxy_def run_simps past_allowance_def)
        next
          case low: True
          show thesis
          proof (cases "decimals_answer w [Ext (Decimals sell), Ext (BalanceOf sell sender),
                              Ext (Allowance sell sender proxy)] sell")
            case (Inl r)
            then show thesis
              using that(5) d b enough g low by (simp add: run_def proxy_def run_simps)
          next
            case d': (Inr d')
            show thesis
            proof (cases "toBaseUnitAmount amt d'")
              case (Inl e)
              then have "toBaseUnitAmount amt d' = Inl (InvalidUnitAmount amt)"
                using toBaseUnitAmount_error by blast
              then show thesis
                using that(6) d b enough g low d' by (simp add: run_def proxy_def run_simps)
            next
              case x: (Inr x)
              show thesis
              proof (cases "approve_answer w [Ext (Decimals sell), Ext (BalanceOf sell sender),
                             Ext (Allowance sell sender proxy), Ext (Decimals sell)]
                             sell proxy x sender")
                case (Inl r)
                then show thesis
                  using that(7) d b enough g low d' x by (simp add: run_def proxy_def run_simps)
              next
                case (Inr tx)
                then show thesis
                  using that(8) d b enough g low d' x
                  by (simp add: run_def proxy_def run_simps past_allowance_def)
              qed
            qed
          qed
        qed
      qed
    qed
  qed
qed


lemma quote_and_fill_cases [case_names quote_decimals_rejected quote_invalid_amount get_rejected
    sendTransaction_rejected awaitTransactionSuccess_rejected mined]:
  fixes w buy sell amt sender prov h
  defines "tail \<equiv> quote_and_fill w buy sell amt sender prov h"
    and "url \<equiv> ''https://kovan.api.0x.org/swap/v0/quote''"
    and "banner \<equiv> ConsoleLog (LogText ''Ethereum transaction generated by the 0x API: '')"
    and "banner' \<equiv> ConsoleLog (LogText ''Orders used to perform the swap '')"
  obtains
    r where "decimals_answer w h sell = Inl r"
      and "tail = (Inl (Rejected r), h @ [Ext (Decimals sell)])"
  | d where "decimals_answer w h sell = Inr d"
      and "toBaseUnitAmount amt d = Inl (InvalidUnitAmount amt)"
      and "tail = (Inl (InvalidUnitAmount amt), h @ [Ext (Decimals sell)])"
  | d x p r where "decimals_answer w h sell = Inr d"
      and "toBaseUnitAmount amt d = Inr x"
      and "p = \<lparr>buyToken = address buy, sellToken = address sell,
                 sellAmount = BigNumber_toString x, takerAddress = sender\<rparr>"
      and "get_answer w (h @ [Ext (Decimals sell)]) url p = Inl r"
      and "tail = (Inl (Rejected r), h @ [Ext (Decimals sell), Ext (HttpGet url p)])"
  | d x p q tx r where "decimals_answer w h sell = Inr d"
      and "toBaseUnitAmount amt d = Inr x"
      and "p = \<lparr>buyToken = address buy, sellToken = address sell,
                 sellAmount = BigNumber_toString x, takerAddress = sender\<rparr>"
      and "get_answer w (h @ [Ext (Decimals sell)]) url p = Inr q"
      and "tx = \<lparr>to = to q, data = data q, gas = gas q, gasPrice = gasPrice q,
                  value' = value' q, from' = sender\<rparr>"
      and "sendTransaction_answer w
             (h @ [Ext (Decimals sell), Ext (HttpGet url p), banner, ConsoleLog (LogTxData q),
                   banner', ConsoleLog (LogOrders (orders q))]) prov tx = Inl r"
      and "tail = (Inl (Rejected r),
                   h @ [Ext (Decimals sell), Ext (HttpGet url p), banner, ConsoleLog (LogTxData q),
                        banner', ConsoleLog (LogOrders (orders q)), Ext (SendTransaction prov tx)])"
  | d x p q tx txHash r where "decimals_answer w h sell = Inr d"
      and "toBaseUnitAmount amt d = Inr x"
      and "p = \<lparr>buyToken = address buy, sellToken = address sell,
                 sellAmount = BigNumber_toString x, takerAddress = sender\<rparr>"
      and "get_answer w (h @ [Ext (Decimals sell)]) url p = Inr q"
      and "tx = \<lparr>to = to q, data = data q, gas = gas q, gasPrice = gasPrice q,
                  value' = value' q, from' = sender\<rparr>"
      and "sendTransaction_answer w
             (h @ [Ext (Decimals sell), Ext (HttpGet url p), banner, ConsoleLog (LogTxData q),
                   banner', ConsoleLog (LogOrders (orders q))]) prov tx = Inr txHash"
      and "awaitTransactionSuccess_answer w
             (h @ [Ext (Decimals sell), Ext (HttpGet url p), banner, ConsoleLog (LogTxData q),
                   banner', ConsoleLog (LogOrders (orders q)), Ext (SendTransaction prov tx)])
             prov txHash = Inl r"
      and "tail = (Inl (Rejected r),
                   h @ [Ext (Decimals sell), Ext (HttpGet url p), banner, ConsoleLog (LogTxData q),
                        banner', ConsoleLog (LogOrders (orders q)), Ext (SendTransaction prov tx),
                        Ext (AwaitTransactionSuccess prov txHash)])"
  | d x p q tx txHash receipt where "decimals_answer w h sell = Inr d"
      and "toBaseUnitAmount amt d = Inr x"
      and "p = \<lparr>buyToken = address buy, sellToken = address sell,
                 sellAmount = BigNumber_toString x, takerAddress = sender\<rparr>"
      and "get_answer w (h @ [Ext (Decimals sell)]) url p = Inr q"
      and "tx = \<lparr>to = to q, data = data q, gas = gas q, gasPrice = gasPrice q,
                  value' = value' q, from' = sender\<rparr>"
      and "sendTransaction_answer w
             (h @ [Ext (Decimals sell), Ext (HttpGet url p), banner, ConsoleLog (LogTxData q),
                   banner', ConsoleLog (LogOrders (orders q))]) prov tx = Inr txHash"
      and "awaitTransactionSuccess_answer w
             (h @ [Ext (Decimals sell), Ext (HttpGet url p), banner, ConsoleLog (LogTxData q),
                   banner', ConsoleLog (LogOrders (orders q)), Ext (SendTransaction prov tx)])
             prov txHash = Inr receipt"
      and "tail = (Inr (),
                   h @ [Ext (Decimals sell), Ext (HttpGet url p), banner, ConsoleLog (LogTxData q),
                        banner', ConsoleLog (LogOrders (orders q)), Ext (SendTransaction prov tx),
                        Ext (AwaitTransactionSuccess prov txHash),
                        ConsoleLog (LogText (''Transaction '' @ transactionHash receipt @
                                             '' was mined successfully''))])"
proof (cases "decimals_answer w h sell")
  case (Inl r)
  then show thesis
    using that(1) by (simp add: tail_def quote_and_fill_run)
next
  case d: (Inr d)
  show thesis
  proof (cases "toBaseUnitAmount amt d")
    case (Inl e)
    then have "toBaseUnitAmount amt d = Inl (InvalidUnitAmount amt)"
      using toBaseUnitAmount_error by blast
    then show thesis
      using that(2) d by (simp add: tail_def quote_and_fill_run)
  next
    case x: (Inr x)
    define p where "p = \<lparr>buyToken = address buy, sellToken = address sell,
                 sellAmount = BigNumber_toString x, takerAddress = sender\<rparr>"
    show thesis
    proof (cases "get_answer w (h @ [Ext (Decimals sell)]) url p")
      case (Inl r)
      then show thesis
        using that(3) [OF d x p_def] d x
        by (simp add: tail_def quote_and_fill_run Let_def p_def url_def)
    next
      case q: (Inr q)
      define tx where "tx = \<lparr>to = to q, data = data q, gas = gas q, gasPrice = gasPrice q,
                  value' = value' q, from' = sender\<rparr>"
      let ?h3 = "h @ [Ext (Decimals sell), Ext (HttpGet url p), banner, ConsoleLog (LogTxData q),
                   banner', ConsoleLog (LogOrders (orders q))]"
      show thesis
      proof (cases "sendTransaction_answer w ?h3 prov tx")
        case (Inl r)
        then show thesis
          using that(4) [OF d x p_def q tx_def] d x q
          by (simp add: tail_def quote_and_fill_run Let_def p_def url_def tx_def banner_def banner'_def)
      next
        case txHash: (Inr txHash)
        show thesis
        proof (cases "awaitTransactionSuccess_answer w (?h3 @ [Ext (SendTransaction prov tx)]) prov txHash")
          case (Inl r)
          then show thesis
            using that(5) [OF d x p_def q tx_def txHash] d x q txHash
            by (simp add: tail_def quote_and_fill_run Let_def p_def url_def tx_def banner_def banner'_def)
        next
          case (Inr receipt)
          then show thesis
            using that(6) [OF d x p_def q tx_def txHash] d x q txHash
            by (simp add: tail_def quote_and_fill_run Let_def p_def url_def tx_def banner_def banner'_def)
        qed
      qed
    qed
  qed
qed

section \<open>Arithmetic of the conversions, observers, example runs\<close>

lemma decimalPlaces_eqI:
  assumes "0 \<le> x" and "of_int z \<le> x * 10 ^ dp + 1 / 2" and "x * 10 ^ dp + 1 / 2 < of_int z + 1"
  shows "decimalPlaces dp x = of_int z / 10 ^ dp"
proof -
  have "\<lfloor>x * 10 ^ dp + 1 / 2\<rfloor> = z"
    using assms(2,3) by (rule floor_unique)
  with assms(1) show ?thesis
    by (simp add: decimalPlaces_def)
qed

lemma decimalPlaces_exact:
  assumes "0 \<le> x" and "x * 10 ^ dp = of_int z"
  shows "decimalPlaces dp x = x"
proof -
  have "decimalPlaces dp x = of_int z / 10 ^ dp"
    using assms by (intro decimalPlaces_eqI) simp_all
  also have "\<dots> = x"
    using assms(2) [symmetric] by simp
  finally show ?thesis .
qed

lemma toUnitAmount_exact:
  assumes "d \<le> DECIMAL_PLACES"
  shows "toUnitAmount n d = of_nat n / 10 ^ d"
proof -
  have "(10::rat) ^ DECIMAL_PLACES = 10 ^ d * 10 ^ (DECIMAL_PLACES - d)"
    using assms by (simp flip: power_add)
  then have "of_nat n / 10 ^ d * (10::rat) ^ DECIMAL_PLACES = of_int (int n * 10 ^ (DECIMAL_PLACES - d))"
    by simp
  then show ?thesis
    unfolding toUnitAmount_def BigNumber_div_def
    by (intro decimalPlaces_exact [where z = "int n * 10 ^ (DECIMAL_PLACES - d)"]) simp_all
qed

lemma toBaseUnitAmount_Inr:
  "toBaseUnitAmount amt d = Inr x \<longleftrightarrow> (\<exists>a. amt = Finite a \<and> of_int x = a * 10 ^ d)"
proof (cases amt)
  case (Finite a)
  show ?thesis
  proof
    assume "toBaseUnitAmount amt d = Inr x"
    then have "of_int x = a * 10 ^ d"
      using Finite by (auto simp: toBaseUnitAmount_def Let_def mult.commute split: if_splits)
    with Finite show "\<exists>a. amt = Finite a \<and> of_int x = a * 10 ^ d"
      by simp
  next
    assume "\<exists>a. amt = Finite a \<and> of_int x = a * 10 ^ d"
    with Finite have *: "10 ^ d * a = of_int x"
      by (simp add: mult.commute)
    show "toBaseUnitAmount amt d = Inr x"
      using * by (auto simp: toBaseUnitAmount_def Let_def Finite)
  qed
qed (simp_all add: toBaseUnitAmount_def)

lemma digits_small: "n < 10 \<Longrightarrow> digits n = [digit n]"
  by (simp add: digits.simps)

lemma digits_step: "10 \<le> n \<Longrightarrow> digits n = digits (n div 10) @ [digit (n mod 10)]"
  by (subst digits.simps) simp

lemma of_char_digit:
  assumes "n < 10"
  shows "of_char (digit n) = 48 + n"
proof -
  have "n \<in> set [0..<10]"
    using assms by simp
  then show ?thesis
    unfolding digit_def by (simp add: upt_rec) (elim disjE; simp)
qed

lemma decimal_value_digits: "decimal_value (digits n) = n"
proof (induction n rule: digits.induct)
  case (1 n)
  show ?case
  proof (cases "n < 10")
    case True
    then show ?thesis
      by (simp add: digits_small decimal_value_def of_char_digit)
  next
    case False
    then have "decimal_value (digits (n div 10)) = n div 10"
      using "1.IH" by simp
    moreover have "of_char (digit (n mod 10)) = 48 + n mod 10"
      by (simp add: of_char_digit)
    ultimately show ?thesis
      using False by (simp add: digits_step decimal_value_def)
  qed
qed

lemma BigNumber_toString_decimal:
  "0 \<le> i \<Longrightarrow> decimal_value (BigNumber_toString i) = nat i"
  "i < 0 \<Longrightarrow> BigNumber_toString i = CHR ''-'' # digits (nat (- i))"
  by (simp_all add: BigNumber_toString_def decimal_value_digits)

lemma calls_of_append: "calls_of (xs @ ys) = calls_of xs @ calls_of ys"
  by (induction xs rule: calls_of.induct) simp_all

lemma kinds_append: "kinds (xs @ ys) = kinds xs @ kinds ys"
  by (simp add: kinds_def calls_of_append)

lemma answers_append: "answers w h (xs @ ys) = answers w h xs @ answers w (h @ xs) ys"
  by (induction w h xs rule: answers.induct) simp_all

lemma steady_run_direct:
  assumes "\<not> js_lt (toNumber nearest (decimalPlaces 2 (toUnitAmount bal dec))) amt"
    and "\<not> js_lt (toNumber nearest (decimalPlaces 2 (toUnitAmount granted dec))) amt"
    and "toBaseUnitAmount amt dec = Inr x"
  shows "performSwapAsync nearest example_addresses (steady_world dec bal granted) buy sell amt sender prov [] =
     (Inr (),
      [Ext (Decimals sell), Ext (BalanceOf sell sender), Ext (Allowance sell sender ''0xproxy''),
       Ext (Decimals sell),
       Ext (HttpGet ''https://kovan.api.0x.org/swap/v0/quote''
              \<lparr>buyToken = address buy, sellToken = address sell,
               sellAmount = BigNumber_toString x, takerAddress = sender\<rparr>),
       ConsoleLog (LogText ''Ethereum transaction generated by the 0x API: ''),
       ConsoleLog (LogTxData example_quote),
       ConsoleLog (LogText ''Orders used to perform the swap ''),
       ConsoleLog (LogOrders (orders example_quote)),
       Ext (SendTransaction prov
              \<lparr>to = to example_quote, data = data example_quote, gas = gas example_quote,
               gasPrice = gasPrice example_quote, value' = value' example_quote, from' = sender\<rparr>),
       Ext (AwaitTransactionSuccess prov ''0xb''),
       ConsoleLog (LogText ''Transaction 0xb was mined successfully'')])"
  using assms
  by (simp add: run_simps steady_world_def example_addresses_def zeroExDeployedAddresses_def)

lemma steady_run_approving:
  assumes "\<not> js_lt (toNumber nearest (decimalPlaces 2 (toUnitAmount bal dec))) amt"
    and "js_lt (toNumber nearest (decimalPlaces 2 (toUnitAmount granted dec))) amt"
    and "toBaseUnitAmount amt dec = Inr x"
  shows "performSwapAsync nearest example_addresses (steady_world dec bal granted) buy sell amt sender prov [] =
     (Inr (),
      [Ext (Decimals sell), Ext (BalanceOf sell sender), Ext (Allowance sell sender ''0xproxy''),
       Ext (Decimals sell), Ext (Approve sell ''0xproxy'' x sender),
       ConsoleLog (LogReceipt \<lparr>transactionHash = ''0xa''\<rparr>),
       Ext (Decimals sell),
       Ext (HttpGet ''https://kovan.api.0x.org/swap/v0/quote''
              \<lparr>buyToken = address buy, sellToken = address sell,
               sellAmount = BigNumber_toString x, takerAddress = sender\<rparr>),
       ConsoleLog (LogText ''Ethereum transaction generated by the 0x API: ''),
       ConsoleLog (LogTxData example_quote),
       ConsoleLog (LogText ''Orders used to perform the swap ''),
       ConsoleLog (LogOrders (orders example_quote)),
       Ext (SendTransaction prov
              \<lparr>to = to example_quote, data = data example_quote, gas = gas example_quote,
               gasPrice = gasPrice example_quote, value' = value' example_quote, from' = sender\<rparr>),
       Ext (AwaitTransactionSuccess prov ''0xb''),
       ConsoleLog (LogText ''Transaction 0xb was mined successfully'')])"
  using assms
  by (simp add: run_simps steady_world_def example_addresses_def zeroExDeployedAddresses_def)

lemma steady_run_not_enough:
  assumes "js_lt (toNumber nearest (decimalPlaces 2 (toUnitAmount bal dec))) amt"
  shows "performSwapAsync nearest example_addresses (steady_world dec bal granted) buy sell amt sender prov [] =
     (Inl (Error ''Not Enough Balance''),
      [Ext (Decimals sell), Ext (BalanceOf sell sender), Alert ''Not Enough Balance''])"
  using assms
  by (simp add: run_simps steady_world_def)

lemma toNumber_short:
  assumes "x * 100 = of_int k" and "\<bar>k\<bar> < 10 ^ 15"
  shows "toNumber nearest x = Finite x"
proof -
  have "\<bar>x * 100\<bar> < 10 ^ 15"
    unfolding assms(1) using assms(2) by (metis of_int_abs of_int_less_iff of_int_numeral of_int_power)
  then show ?thesis
    by (simp add: toNumber_def assms(1))
qed

lemma rounded_4999: "toNumber nearest (decimalPlaces 2 (toUnitAmount 4999 3)) = Finite 5"
  using decimalPlaces_eqI [of "4999 / 1000" 500 2] toNumber_short [of 5 500 nearest]
  by (simp add: toUnitAmount_exact DECIMAL_PLACES_def)

lemma rounded_whole:
  assumes "d \<le> DECIMAL_PLACES" and "n = k * 10 ^ d" and "k < 10 ^ 13"
  shows "toNumber nearest (decimalPlaces 2 (toUnitAmount n d)) = Finite (of_nat k)"
proof -
  have "toUnitAmount n d = of_nat k"
    using assms by (simp add: toUnitAmount_exact)
  moreover have "decimalPlaces 2 (of_nat k) = of_nat k"
    by (rule decimalPlaces_exact [where z = "int k * 100"]) simp_all
  moreover have "toNumber nearest (of_nat k) = Finite (of_nat k)"
    using assms(3) by (intro toNumber_short [where k = "int k * 100"]) simp_all
  ultimately show ?thesis
    by simp
qed

lemma quote_and_fill_no_Error: "fst (quote_and_fill w buy sell amt sender prov h) \<noteq> Inl (Error m)"
  by (cases rule: quote_and_fill_cases [where w = w and buy = buy and sell = sell and amt = amt
        and sender = sender and prov = prov and h = h]) simp_all

lemma past_allowance_balance:
  assumes "past_allowance nearest addrs w sell amt sender h"
  obtains d b where "decimals_answer w [] sell = Inr d"
    and "balanceOf_answer w [Ext (Decimals sell)] sell sender = Inr b"
    and "\<not> js_lt (toNumber nearest (decimalPlaces 2 (toUnitAmount b d))) amt"
  using assms unfolding past_allowance_def Let_def by blast

lemma past_allowance_cases [consumes 1, case_names allowed approved]:
  fixes addrs sell sender
  defines "proxy \<equiv> erc20Proxy (zeroExDeployedAddresses addrs)"
  defines "front \<equiv> [Ext (Decimals sell), Ext (BalanceOf sell sender), Ext (Allowance sell sender proxy)]"
  assumes "past_allowance nearest addrs w sell amt sender h"
  obtains
    d b g where "decimals_answer w [] sell = Inr d"
      and "balanceOf_answer w [Ext (Decimals sell)] sell sender = Inr b"
      and "\<not> js_lt (toNumber nearest (decimalPlaces 2 (toUnitAmount b d))) amt"
      and "allowance_answer w [Ext (Decimals sell), Ext (BalanceOf sell sender)] sell sender proxy = Inr g"
      and "\<not> js_lt (toNumber nearest (decimalPlaces 2 (toUnitAmount g d))) amt"
      and "h = front"
  | d b g d' x tx where "decimals_answer w [] sell = Inr d"
      and "balanceOf_answer w [Ext (Decimals sell)] sell sender = Inr b"
      and "\<not> js_lt (toNumber nearest (decimalPlaces 2 (toUnitAmount b d))) amt"
      and "allowance_answer w [Ext (Decimals sell), Ext (BalanceOf sell sender)] sell sender proxy = Inr g"
      and "js_lt (toNumber nearest (decimalPlaces 2 (toUnitAmount g d))) amt"
      and "decimals_answer w front sell = Inr d'"
      and "toBaseUnitAmount amt d' = Inr x"
      and "approve_answer w (front @ [Ext (Decimals sell)]) sell proxy x sender = Inr tx"
      and "h = front @ [Ext (Decimals sell), Ext (Approve sell proxy x sender),
                        ConsoleLog (LogReceipt tx)]"
  using assms(3) unfolding past_allowance_def Let_def proxy_def front_def
  by (auto split: if_splits)

subsection \<open>What the last two steps add to a run\<close>

lemma kind_of_mem_kinds: "Ext c \<in> set tr \<Longrightarrow> kind_of c \<in> set (kinds tr)"
  by (induction tr rule: calls_of.induct) (auto simp: kinds_def)

lemma quote_and_fill_suffix:
  "\<exists>sfx. snd (quote_and_fill w buy sell amt sender prov h) = h @ sfx \<and>
     prefix (kinds sfx) [KDecimals, KHttpGet, KSendTransaction, KAwaitTransactionSuccess] \<and>
     (fst (quote_and_fill w buy sell amt sender prov h) = Inr () \<longrightarrow>
        kinds sfx = [KDecimals, KHttpGet, KSendTransaction, KAwaitTransactionSuccess] \<and>
        (\<exists>tx. Ext (SendTransaction prov tx) \<in> set sfx))"
  by (cases rule: quote_and_fill_cases [where w = w and buy = buy and sell = sell and amt = amt
        and sender = sender and prov = prov and h = h])
     (simp_all add: kinds_def)

lemma quote_and_fill_kinds:
  "\<exists>sfx. snd (quote_and_fill w buy sell amt sender prov h) = h @ sfx \<and>
     (if fst (quote_and_fill w buy sell amt sender prov h) = Inr ()
      then kinds sfx = [KDecimals, KHttpGet, KSendTransaction, KAwaitTransactionSuccess]
      else kinds sfx \<in> {[KDecimals], [KDecimals, KHttpGet], [KDecimals, KHttpGet, KSendTransaction],
             [KDecimals, KHttpGet, KSendTransaction, KAwaitTransactionSuccess]})"
  by (cases rule: quote_and_fill_cases [where w = w and buy = buy and sell = sell and amt = amt
        and sender = sender and prov = prov and h = h])
     (simp_all add: kinds_def)

lemma past_allowance_kinds:
  assumes "past_allowance nearest addrs w sell amt sender h"
  shows "kinds h = [KDecimals, KBalanceOf, KAllowance]
      \<or> kinds h = [KDecimals, KBalanceOf, KAllowance, KDecimals, KApprove]"
  using assms by (cases rule: past_allowance_cases) (simp_all add: kinds_def)

lemma quote_and_fill_get:
  fixes w buy sell amt sender prov h
  defines "tail \<equiv> quote_and_fill w buy sell amt sender prov h"
  assumes "Ext (HttpGet url p) \<in> set (snd tail)" and "KHttpGet \<notin> set (kinds h)"
  shows "url = ''https://kovan.api.0x.org/swap/v0/quote'' \<and>
    (\<exists>d a x rest.
        snd tail = h @ [Ext (Decimals sell), Ext (HttpGet url p)] @ rest \<and>
        decimals_answer w h sell = Inr d \<and> amt = Finite a \<and> of_int x = a * 10 ^ d \<and>
        p = \<lparr>buyToken = address buy, sellToken = address sell,
             sellAmount = BigNumber_toString x, takerAddress = sender\<rparr> \<and>
        KHttpGet \<notin> set (kinds rest))"
proof -
  have "Ext (HttpGet url p) \<notin> set h"
    using assms(3) kind_of_mem_kinds [of "HttpGet url p" h] by auto
  with assms(2) show ?thesis
    unfolding tail_def
    by (cases rule: quote_and_fill_cases [where w = w and buy = buy and sell = sell and amt = amt
          and sender = sender and prov = prov and h = h])
       (auto simp: toBaseUnitAmount_Inr kinds_def)
qed

lemma quote_and_fill_sent:
  fixes w buy sell amt sender prov h
  defines "tail \<equiv> quote_and_fill w buy sell amt sender prov h"
  assumes "Ext (SendTransaction client tx) \<in> set (snd tail)" and "KSendTransaction \<notin> set (kinds h)"
  shows "client = prov \<and>
    (\<exists>p q rest.
        snd tail =
          (h @ [Ext (Decimals sell)]) @
          [Ext (HttpGet ''https://kovan.api.0x.org/swap/v0/quote'' p),
           ConsoleLog (LogText ''Ethereum transaction generated by the 0x API: ''),
           ConsoleLog (LogTxData q),
           ConsoleLog (LogText ''Orders used to perform the swap ''),
           ConsoleLog (LogOrders (orders q)),
           Ext (SendTransaction prov tx)] @ rest \<and>
        get_answer w (h @ [Ext (Decimals sell)]) ''https://kovan.api.0x.org/swap/v0/quote'' p = Inr q \<and>
        tx = \<lparr>to = to q, data = data q, gas = gas q, gasPrice = gasPrice q,
              value' = value' q, from' = sender\<rparr> \<and>
        set (kinds rest) \<subseteq> {KAwaitTransactionSuccess})"
proof -
  have "Ext (SendTransaction client tx) \<notin> set h"
    using assms(3) kind_of_mem_kinds [of "SendTransaction client tx" h] by auto
  with assms(2) show ?thesis
    unfolding tail_def
    by (cases rule: quote_and_fill_cases [where w = w and buy = buy and sell = sell and amt = amt
          and sender = sender and prov = prov and h = h])
       (auto simp: kinds_def)
qed

lemma map_sum_id_Inl [simp]: "map_sum id f x = Inl r \<longleftrightarrow> x = Inl r"
  by (cases x) auto

lemma map_sum_id_Number [simp]: "map_sum id Number x = Inr (Number n) \<longleftrightarrow> x = Inr n"
  by (cases x) auto

lemma map_sum_id_Receipt [simp]: "map_sum id Receipt x = Inr (Receipt n) \<longleftrightarrow> x = Inr n"
  by (cases x) auto

lemma map_sum_id_Quote [simp]: "map_sum id Quote x = Inr (Quote n) \<longleftrightarrow> x = Inr n"
  by (cases x) auto

lemma map_sum_id_TxHash [simp]: "map_sum id TxHash x = Inr (TxHash n) \<longleftrightarrow> x = Inr n"
  by (cases x) auto

lemma length_answers: "length (answers w h tr) = length (calls_of tr)"
  by (induction w h tr rule: answers.induct) simp_all

lemma past_allowance_no_rejection:
  assumes "past_allowance nearest addrs w sell amt sender h"
  shows "Inl r \<notin> set (answers w [] h)"
  using assms by (cases rule: past_allowance_cases) auto

lemma quote_and_fill_rejection:
  fixes w buy sell amt sender prov h
  defines "tail \<equiv> quote_and_fill w buy sell amt sender prov h"
  assumes "\<forall>r. Inl r \<notin> set (answers w [] h)"
  shows "(\<forall>r. Inl r \<in> set (answers w [] (snd tail)) \<longrightarrow>
            fst tail = Inl (Rejected r) \<and>
            (\<exists>c. last (snd tail) = Ext c \<and> world_answer w (butlast (snd tail)) c = Inl r) \<and>
            (\<forall>r'. Inl r' \<notin> set (answers w [] (butlast (snd tail)))))
    \<and> (\<forall>r. fst tail = Inl (Rejected r) \<longrightarrow> Inl r \<in> set (answers w [] (snd tail)))"
  using assms(2) unfolding tail_def
  by (cases rule: quote_and_fill_cases [where w = w and buy = buy and sell = sell and amt = amt
        and sender = sender and prov = prov and h = h])
     (simp_all add: answers_append butlast_append)

lemma past_allowance_run:
  assumes "past_allowance nearest addrs w sell amt sender h"
  shows "performSwapAsync nearest addrs w buy sell amt sender prov [] =
    quote_and_fill w buy sell amt sender prov h"
  using assms
  by (cases rule: past_allowance_cases)
     (simp_all add: performSwapAsync_steps await_then_def check_balance_run ensure_allowance_run Let_def)

lemma past_allowance_transfer:
  assumes "past_allowance nearest addrs w sell amt sender h"
    and "answers w' [] h = answers w [] h"
  shows "past_allowance nearest addrs w' sell amt sender h"
  using assms
  by (cases rule: past_allowance_cases) (simp_all add: past_allowance_def)

lemma quote_and_fill_same:
  assumes "answers w' h (drop (length h) (snd (quote_and_fill w buy sell amt sender prov h))) =
           answers w h (drop (length h) (snd (quote_and_fill w buy sell amt sender prov h)))"
  shows "quote_and_fill w' buy sell amt sender prov h = quote_and_fill w buy sell amt sender prov h"
  using assms
  by (cases rule: quote_and_fill_cases [where w = w and buy = buy and sell = sell and amt = amt
        and sender = sender and prov = prov and h = h])
     (simp_all add: quote_and_fill_run [where w = w'])

lemma rounded_10000: "toNumber nearest (decimalPlaces 2 (toUnitAmount 10000 3)) = Finite 10"
  using rounded_whole [of 3 10000 10] by (simp add: DECIMAL_PLACES_def)

lemma base_units_5: "toBaseUnitAmount (Finite 5) 3 = Inr 5000"
  by (simp add: toBaseUnitAmount_Inr)

lemma toString_5000: "BigNumber_toString 5000 = ''5000''"
  by (simp add: BigNumber_toString_def digits_small digits_step digit_def)

lemma steady_approving_5:
  "performSwapAsync nearest example_addresses (steady_world 3 10000 0) buy sell (Finite 5) sender prov [] =
     (Inr (),
      [Ext (Decimals sell), Ext (BalanceOf sell sender), Ext (Allowance sell sender ''0xproxy''),
       Ext (Decimals sell), Ext (Approve sell ''0xproxy'' 5000 sender),
       ConsoleLog (LogReceipt \<lparr>transactionHash = ''0xa''\<rparr>),
       Ext (Decimals sell),
       Ext (HttpGet ''https://kovan.api.0x.org/swap/v0/quote''
              \<lparr>buyToken = address buy, sellToken = address sell,
               sellAmount = ''5000'', takerAddress = sender\<rparr>),
       ConsoleLog (LogText ''Ethereum transaction generated by the 0x API: ''),
       ConsoleLog (LogTxData example_quote),
       ConsoleLog (LogText ''Orders used to perform the swap ''),
       ConsoleLog (LogOrders (orders example_quote)),
       Ext (SendTransaction prov
              \<lparr>to = to example_quote, data = data example_quote, gas = gas example_quote,
               gasPrice = gasPrice example_quote, value' = value' example_quote, from' = sender\<rparr>),
       Ext (AwaitTransactionSuccess prov ''0xb''),
       ConsoleLog (LogText ''Transaction 0xb was mined successfully'')])"
proof -
  have "toNumber nearest (decimalPlaces 2 (toUnitAmount 10000 3)) = Finite 10"
    using rounded_whole [of 3 10000 10] by (simp add: DECIMAL_PLACES_def)
  then have balance: "\<not> js_lt (toNumber nearest (decimalPlaces 2 (toUnitAmount 10000 3))) (Finite 5)"
    by simp
  have "toNumber nearest (decimalPlaces 2 (toUnitAmount 0 3)) = Finite 0"
    using rounded_whole [of 3 0 0] by (simp add: DECIMAL_PLACES_def)
  then have granted: "js_lt (toNumber nearest (decimalPlaces 2 (toUnitAmount 0 3))) (Finite 5)"
    by simp
  have amount: "toBaseUnitAmount (Finite 5) 3 = Inr 5000"
    by (simp add: toBaseUnitAmount_Inr)
  have "BigNumber_toString 5000 = ''5000''"
    by (simp add: BigNumber_toString_def digits_small digits_step digit_def)
  with steady_run_approving [OF balance granted amount] show ?thesis
    by simp
qed

lemma steady_direct_5:
  assumes "granted = 10000 \<or> granted = 4999"
  shows "performSwapAsync nearest example_addresses (steady_world 3 10000 granted) buy sell (Finite 5) sender prov [] =
     (Inr (),
      [Ext (Decimals sell), Ext (BalanceOf sell sender), Ext (Allowance sell sender ''0xproxy''),
       Ext (Decimals sell),
       Ext (HttpGet ''https://kovan.api.0x.org/swap/v0/quote''
              \<lparr>buyToken = address buy, sellToken = address sell,
               sellAmount = ''5000'', takerAddress = sender\<rparr>),
       ConsoleLog (LogText ''Ethereum transaction generated by the 0x API: ''),
       ConsoleLog (LogTxData example_quote),
       ConsoleLog (LogText ''Orders used to perform the swap ''),
       ConsoleLog (LogOrders (orders example_quote)),
       Ext (SendTransaction prov
              \<lparr>to = to example_quote, data = data example_quote, gas = gas example_quote,
               gasPrice = gasPrice example_quote, value' = value' example_quote, from' = sender\<rparr>),
       Ext (AwaitTransactionSuccess prov ''0xb''),
       ConsoleLog (LogText ''Transaction 0xb was mined successfully'')])"
proof -
  have balance: "\<not> js_lt (toNumber nearest (decimalPlaces 2 (toUnitAmount 10000 3))) (Finite 5)"
    by (simp add: rounded_10000)
  have granted: "\<not> js_lt (toNumber nearest (decimalPlaces 2 (toUnitAmount granted 3))) (Finite 5)"
    using assms by (auto simp: rounded_10000 rounded_4999)
  from steady_run_direct [OF balance granted base_units_5] show ?thesis
    by (simp add: toString_5000)
qed

lemma quote_down_run:
  "performSwapAsync nearest example_addresses quote_down_world buy sell (Finite 5) sender prov [] =
     (Inl (Rejected ''503''),
      [Ext (Decimals sell), Ext (BalanceOf sell sender), Ext (Allowance sell sender ''0xproxy''),
       Ext (Decimals sell),
       Ext (HttpGet ''https://kovan.api.0x.org/swap/v0/quote''
              \<lparr>buyToken = address buy, sellToken = address sell,
               sellAmount = ''5000'', takerAddress = sender\<rparr>)])"
  by (simp add: run_simps quote_down_world_def steady_world_def example_addresses_def
        zeroExDeployedAddresses_def rounded_10000 base_units_5 toString_5000)

subsection \<open>Decimal strings, the guards in plain arithmetic, failed conversions\<close>

lemma digits_not_Nil: "digits n \<noteq> []"
  by (subst digits.simps) simp

lemma digit_char: "n < 10 \<Longrightarrow> is_digit (digit n)"
  unfolding digit_def is_digit_def by (rule nth_mem) simp

lemma digits_chars: "list_all is_digit (digits n)"
proof (induction n rule: digits.induct)
  case (1 n)
  show ?case
  proof (cases "n < 10")
    case True
    then show ?thesis
      using digit_char [of n] by (simp add: digits_small)
  next
    case False
    then show ?thesis
      using "1.IH" digit_char [of "n mod 10"] by (simp add: digits_step)
  qed
qed

lemma digits_leading_zero:
  assumes "hd (digits n) = CHR ''0''"
  shows "digits n = ''0''"
  using assms
proof (induction n rule: digits.induct)
  case (1 n)
  show ?case
  proof (cases "n < 10")
    case True
    with "1.prems" have "digit n = CHR ''0''"
      by (simp add: digits_small)
    then have "of_char (digit n) = (48::nat)"
      by simp
    with True have "n = 0"
      by (simp add: of_char_digit)
    then show ?thesis
      by (simp add: digits_small digit_def)
  next
    case False
    with "1.prems" have "hd (digits (n div 10)) = CHR ''0''"
      by (simp add: digits_step digits_not_Nil)
    with False "1.IH" have "digits (n div 10) = ''0''"
      by simp
    then have "decimal_value (digits (n div 10)) = 0"
      by (simp add: decimal_value_def)
    with False show ?thesis
      by (simp add: decimal_value_digits)
  qed
qed

lemma BigNumber_toString_is_decimal: "is_decimal_string (BigNumber_toString i) i"
  by (auto simp: is_decimal_string_def BigNumber_toString_def Let_def digits_not_Nil digits_chars
        decimal_value_digits dest: digits_leading_zero)




lemma prefix_snoc_Cons:
  "prefix (h @ [x]) (y # ys) \<longleftrightarrow> (h = [] \<and> x = y) \<or> (\<exists>h'. h = y # h' \<and> prefix (h' @ [x]) ys)"
  by (cases h) auto

lemma toBaseUnitAmount_Inl:
  "toBaseUnitAmount amt d = Inl e \<longleftrightarrow>
     e = InvalidUnitAmount amt \<and> \<not> (\<exists>a x. amt = Finite a \<and> of_int x = a * 10 ^ d)"
proof (cases "toBaseUnitAmount amt d")
  case (Inl e')
  then have "e' = InvalidUnitAmount amt"
    by (rule toBaseUnitAmount_error)
  moreover have "\<not> (\<exists>a x. amt = Finite a \<and> of_int x = a * 10 ^ d)"
    using Inl toBaseUnitAmount_Inr [of amt d] by (metis Inl_Inr_False)
  ultimately show ?thesis
    using Inl by auto
next
  case (Inr x)
  then show ?thesis
    using toBaseUnitAmount_Inr [of amt d x] by auto
qed

lemma conversion_failure_ends_run:
  fixes nearest addrs w buy sell amt sender prov
  defines "run \<equiv> performSwapAsync nearest addrs w buy sell amt sender prov []"
  shows "(\<forall>h d. h \<noteq> [] \<and> prefix (h @ [Ext (Decimals sell)]) (snd run) \<and>
            decimals_answer w h sell = Inr d \<and>
            \<not> (\<exists>a x. amt = Finite a \<and> of_int x = a * 10 ^ d) \<longrightarrow>
            run = (Inl (InvalidUnitAmount amt), h @ [Ext (Decimals sell)]))
    \<and> (\<forall>n. fst run = Inl (InvalidUnitAmount n) \<longrightarrow>
          n = amt \<and> last (snd run) = Ext (Decimals sell) \<and> butlast (snd run) \<noteq> [] \<and>
          (\<exists>d. decimals_answer w (butlast (snd run)) sell = Inr d \<and>
               \<not> (\<exists>a x. amt = Finite a \<and> of_int x = a * 10 ^ d)))"
proof (cases rule: front_cases [where w = w and buy = buy and sell = sell and amt = amt
        and sender = sender and prov = prov and addrs = addrs and nearest = nearest])
  case (proceeds h)
  from proceeds(1) show ?thesis
  proof (cases rule: past_allowance_cases)
    case (allowed d b g)
    show ?thesis
      unfolding run_def proceeds(2) allowed(6)
      by (cases rule: quote_and_fill_cases [where w = w and buy = buy and sell = sell and amt = amt
            and sender = sender and prov = prov
            and h = "[Ext (Decimals sell), Ext (BalanceOf sell sender),
                      Ext (Allowance sell sender (erc20Proxy (zeroExDeployedAddresses addrs)))]"])
         (auto simp: toBaseUnitAmount_Inr toBaseUnitAmount_Inl prefix_snoc_Cons)
  next
    case (approved d b g d' x tx)
    show ?thesis
      using approved(6,7)
      unfolding run_def proceeds(2) approved(9)
      by (cases rule: quote_and_fill_cases [where w = w and buy = buy and sell = sell and amt = amt
            and sender = sender and prov = prov
            and h = "[Ext (Decimals sell), Ext (BalanceOf sell sender),
                      Ext (Allowance sell sender (erc20Proxy (zeroExDeployedAddresses addrs)))] @
                     [Ext (Decimals sell),
                      Ext (Approve sell (erc20Proxy (zeroExDeployedAddresses addrs)) x sender),
                      ConsoleLog (LogReceipt tx)]"])
         (auto simp: toBaseUnitAmount_Inr toBaseUnitAmount_Inl prefix_snoc_Cons)
  qed
qed (auto simp: run_def toBaseUnitAmount_Inr toBaseUnitAmount_Inl prefix_snoc_Cons)

lemma rejection_ends_run:
  fixes nearest addrs w buy sell amt sender prov
  defines "run \<equiv> performSwapAsync nearest addrs w buy sell amt sender prov []"
  shows "(\<forall>r. Inl r \<in> set (answers w [] (snd run)) \<longrightarrow>
            fst run = Inl (Rejected r) \<and>
            (\<exists>c. last (snd run) = Ext c \<and> world_answer w (butlast (snd run)) c = Inl r) \<and>
            (\<forall>r'. Inl r' \<notin> set (answers w [] (butlast (snd run)))))
    \<and> (\<forall>r. fst run = Inl (Rejected r) \<longrightarrow> Inl r \<in> set (answers w [] (snd run)))"
proof (cases rule: front_cases [where w = w and buy = buy and sell = sell and amt = amt
        and sender = sender and prov = prov and addrs = addrs and nearest = nearest])
  case (proceeds h)
  have "\<forall>r. Inl r \<notin> set (answers w [] h)"
    using past_allowance_no_rejection [OF proceeds(1)] by blast
  then show ?thesis
    unfolding run_def proceeds(2) by (rule quote_and_fill_rejection)
qed (simp_all add: run_def)

lemma half_not_whole: "\<not> (\<exists>a x. Finite (1 / 2000) = Finite a \<and> rat_of_int x = a * 10 ^ 3)"
proof
  assume "\<exists>a x. Finite (1 / 2000) = Finite a \<and> rat_of_int x = a * 10 ^ 3"
  then obtain a x where "Finite (1 / 2000) = Finite a" and x: "rat_of_int x = a * 10 ^ 3"
    by blast
  then have "a = 1 / 2000"
    by simp
  with x have "rat_of_int x = 1 / 2"
    by simp
  then have "rat_of_int (2 * x) = rat_of_int 1"
    by simp
  then have "2 * x = 1"
    by (simp only: of_int_eq_iff)
  then show False
    by presburger
qed

lemma tiny_amount_run:
  "performSwapAsync nearest example_addresses (steady_world 3 10000 10000) buy sell (Finite (1 / 2000))
     sender prov [] =
     (Inl (InvalidUnitAmount (Finite (1 / 2000))),
      [Ext (Decimals sell), Ext (BalanceOf sell sender), Ext (Allowance sell sender ''0xproxy''),
       Ext (Decimals sell)])"
proof -
  have "toBaseUnitAmount (Finite (1 / 2000)) 3 = Inl (InvalidUnitAmount (Finite (1 / 2000)))"
    using half_not_whole by (simp only: toBaseUnitAmount_Inl) simp
  then show ?thesis
    by (simp add: run_simps steady_world_def example_addresses_def zeroExDeployedAddresses_def
          rounded_10000)
qed

lemma balance_error_iff_guard:
  assumes "decimals_answer w [] sell = Inr d"
    and "balanceOf_answer w [Ext (Decimals sell)] sell sender = Inr b"
  shows "(fst (performSwapAsync nearest addrs w buy sell amt sender prov []) =
            Inl (Error ''Not Enough Balance'')) =
         js_lt (toNumber nearest (decimalPlaces 2 (toUnitAmount b d))) amt"
  using assms
  by (cases rule: front_cases [where w = w and buy = buy and sell = sell and amt = amt
        and sender = sender and prov = prov and addrs = addrs and nearest = nearest])
     (auto simp: quote_and_fill_no_Error elim: past_allowance_balance)

lemma guard_follows_rounding_beyond_15_digits:
  assumes "nearest 9007199254740995 = Finite 9007199254740996"
  shows "fst (performSwapAsync nearest addrs (steady_world 0 9007199254740995 granted) buy sell
                (Finite 9007199254740996) sender prov []) \<noteq> Inl (Error ''Not Enough Balance'')"
proof -
  have "toUnitAmount 9007199254740995 0 = 9007199254740995"
    by (simp add: toUnitAmount_exact)
  moreover have "decimalPlaces 2 9007199254740995 = 9007199254740995"
    by (rule decimalPlaces_exact [where z = 900719925474099500]) simp_all
  moreover have "toNumber nearest 9007199254740995 = nearest 9007199254740995"
    by (simp add: toNumber_def)
  ultimately have "\<not> js_lt (toNumber nearest (decimalPlaces 2 (toUnitAmount 9007199254740995 0)))
      (Finite 9007199254740996)"
    using assms by simp
  then show ?thesis
    by (subst balance_error_iff_guard [where d = 0 and b = 9007199254740995])
       (simp_all add: steady_world_def)
qed

text \<open>
  What the two guards decide, for every rounding \<open>nearest\<close>: the balance error is raised
  exactly on the guard of step 1, and an approval is issued exactly on the guard of step 2.
\<close>

lemma not_enough_balance_alert_then_error:
  fixes nearest addrs w buy sell amt sender prov
  defines "run \<equiv> performSwapAsync nearest addrs w buy sell amt sender prov []"
  shows "(\<forall>d b. decimals_answer w [] sell = Inr d \<and>
            balanceOf_answer w [Ext (Decimals sell)] sell sender = Inr b \<and>
            js_lt (toNumber nearest (decimalPlaces 2 (toUnitAmount b d))) amt \<longrightarrow>
            run = (Inl (Error ''Not Enough Balance''),
                   [Ext (Decimals sell), Ext (BalanceOf sell sender), Alert ''Not Enough Balance'']))
    \<and> (\<forall>m. fst run = Inl (Error m) \<longrightarrow>
            m = ''Not Enough Balance'' \<and>
            (\<exists>d b. decimals_answer w [] sell = Inr d \<and>
               balanceOf_answer w [Ext (Decimals sell)] sell sender = Inr b \<and>
               js_lt (toNumber nearest (decimalPlaces 2 (toUnitAmount b d))) amt))"
proof (intro conjI allI impI)
  fix d b
  assume "decimals_answer w [] sell = Inr d \<and>
            balanceOf_answer w [Ext (Decimals sell)] sell sender = Inr b \<and>
            js_lt (toNumber nearest (decimalPlaces 2 (toUnitAmount b d))) amt"
  then show "run = (Inl (Error ''Not Enough Balance''),
                   [Ext (Decimals sell), Ext (BalanceOf sell sender), Alert ''Not Enough Balance''])"
    by (simp add: run_def run_simps)
next
  fix m
  assume "fst run = Inl (Error m)"
  then show "m = ''Not Enough Balance''"
    unfolding run_def
    by (cases rule: front_cases [where w = w and buy = buy and sell = sell and amt = amt
          and sender = sender and prov = prov and addrs = addrs and nearest = nearest])
       (simp_all add: quote_and_fill_no_Error)
  from \<open>fst run = Inl (Error m)\<close>
  show "\<exists>d b. decimals_answer w [] sell = Inr d \<and>
               balanceOf_answer w [Ext (Decimals sell)] sell sender = Inr b \<and>
               js_lt (toNumber nearest (decimalPlaces 2 (toUnitAmount b d))) amt"
    unfolding run_def
    by (cases rule: front_cases [where w = w and buy = buy and sell = sell and amt = amt
          and sender = sender and prov = prov and addrs = addrs and nearest = nearest])
       (simp_all add: quote_and_fill_no_Error)
qed

lemma approval_when_rounded_allowance_low:
  fixes nearest addrs w buy sell amt sender prov
  defines "run \<equiv> performSwapAsync nearest addrs w buy sell amt sender prov []"
    and "proxy \<equiv> erc20Proxy (addrs Kovan)"
  shows "(fst run = Inr () \<longrightarrow>
            Ext (BalanceOf sell sender) \<in> set (snd run) \<and>
            Ext (Allowance sell sender proxy) \<in> set (snd run) \<and>
            (\<exists>tx. Ext (SendTransaction prov tx) \<in> set (snd run)) \<and>
            (\<exists>d g. decimals_answer w [] sell = Inr d \<and>
               allowance_answer w [Ext (Decimals sell), Ext (BalanceOf sell sender)]
                 sell sender proxy = Inr g \<and>
               (KApprove \<in> set (kinds (snd run))) =
                 js_lt (toNumber nearest (decimalPlaces 2 (toUnitAmount g d))) amt))
    \<and> (KApprove \<in> set (kinds (snd run)) \<longrightarrow>
          (\<exists>d g. decimals_answer w [] sell = Inr d \<and>
             allowance_answer w [Ext (Decimals sell), Ext (BalanceOf sell sender)]
               sell sender proxy = Inr g \<and>
             js_lt (toNumber nearest (decimalPlaces 2 (toUnitAmount g d))) amt))"
proof (cases rule: front_cases [where w = w and buy = buy and sell = sell and amt = amt
        and sender = sender and prov = prov and addrs = addrs and nearest = nearest])
  case (proceeds h)
  obtain sfx where sfx: "snd run = h @ sfx"
    and ks: "prefix (kinds sfx) [KDecimals, KHttpGet, KSendTransaction, KAwaitTransactionSuccess]"
    and sent: "fst run = Inr () \<longrightarrow> (\<exists>tx. Ext (SendTransaction prov tx) \<in> set sfx)"
    using quote_and_fill_suffix [of w buy sell amt sender prov h] proceeds(2)
    by (auto simp: run_def)
  have "set (kinds sfx) \<subseteq> {KDecimals, KHttpGet, KSendTransaction, KAwaitTransactionSuccess}"
    using set_mono_prefix [OF ks] by simp
  then have no: "KApprove \<notin> set (kinds sfx)"
    by auto
  from proceeds(1) show ?thesis
  proof (cases rule: past_allowance_cases)
    case (allowed d b g)
    then show ?thesis
      using sfx no sent
      by (auto simp: kinds_append proxy_def zeroExDeployedAddresses_def kinds_def)
  next
    case (approved d b g d' x' tx)
    then show ?thesis
      using sfx no sent
      by (auto simp: kinds_append proxy_def zeroExDeployedAddresses_def kinds_def)
  qed
qed (auto simp: run_def proxy_def zeroExDeployedAddresses_def kinds_def)

section \<open>The claims\<close>

text \<open>
  Throughout, a run of \<open>performSwapAsync\<close> starts from the empty list of events; its
  result is the pair of the outcome (\<open>Inr ()\<close> when the promise resolves, \<open>Inl e\<close> when it
  rejects with \<open>e\<close>) and the events it caused, in order.
\<close>

subsection \<open>The balance guard\<close>

text \<open>
  Claim C9. If \<open>performSwapAsync\<close> raises \<^verbatim>\<open>Error('Not Enough Balance')\<close>, no state-changing
  external call has been made: no approval, no HTTP quote request, no transaction
  submission. The events of such a run are exactly the decimals read, the balance read
  and the alert.
\<close>

theorem balance_error_after_reads_only:
  fixes nearest addrs w buy sell amt sender prov
  defines "run \<equiv> performSwapAsync nearest addrs w buy sell amt sender prov []"
  assumes "fst run = Inl (Error ''Not Enough Balance'')"
  shows "snd run = [Ext (Decimals sell), Ext (BalanceOf sell sender), Alert ''Not Enough Balance'']
    \<and> calls_of (snd run) = [Decimals sell, BalanceOf sell sender]
    \<and> KApprove \<notin> set (kinds (snd run)) \<and> KHttpGet \<notin> set (kinds (snd run))
    \<and> KSendTransaction \<notin> set (kinds (snd run))"
  using assms(2) unfolding run_def
  by (cases rule: front_cases [where w = w and buy = buy and sell = sell and amt = amt
        and sender = sender and prov = prov and addrs = addrs and nearest = nearest])
     (simp_all add: quote_and_fill_no_Error kinds_def)

theorem balance_error_after_reads_only_witness:
  "fst (performSwapAsync unused_nearest example_addresses (steady_world 3 4000 0) weth dai (Finite 5)
          ''0xme'' (Provider 0) []) = Inl (Error ''Not Enough Balance'')
   \<and> calls_of (snd (performSwapAsync unused_nearest example_addresses (steady_world 3 4000 0) weth dai (Finite 5)
          ''0xme'' (Provider 0) [])) = [Decimals dai, BalanceOf dai ''0xme'']"
proof -
  have "toNumber unused_nearest (decimalPlaces 2 (toUnitAmount 4000 3)) = Finite 4"
    using rounded_whole [of 3 4000 4] by (simp add: DECIMAL_PLACES_def)
  then have failed: "fst (performSwapAsync unused_nearest example_addresses (steady_world 3 4000 0) weth dai (Finite 5)
          ''0xme'' (Provider 0) []) = Inl (Error ''Not Enough Balance'')"
    by (simp add: steady_run_not_enough)
  from balance_error_after_reads_only [OF failed] failed show ?thesis
    by simp
qed



text \<open>
  Claim C1 says that an insufficient balance is answered with the alert and the error, as
  the comment of step 1 asks (``Does the user have enough balance?''). The code does not
  do so for a balance that rounds up to the amount: with 6 decimals, a balance of 9996000
  base units (9.996 tokens) and an amount of 10, the balance is below the amount, yet no
  alert is shown and the run completes.
\<close>

theorem insufficient_balance_passes_guard:
  "decimals_answer (steady_world 6 9996000 20000000) [] dai = Inr 6
   \<and> balanceOf_answer (steady_world 6 9996000 20000000) [Ext (Decimals dai)] dai ''0xme'' = Inr 9996000
   \<and> rat_of_nat 9996000 / 10 ^ 6 < 10
   \<and> fst (performSwapAsync unused_nearest example_addresses (steady_world 6 9996000 20000000) weth dai
            (Finite 10) ''0xme'' (Provider 0) []) = Inr ()
   \<and> Alert ''Not Enough Balance'' \<notin>
       set (snd (performSwapAsync unused_nearest example_addresses (steady_world 6 9996000 20000000)
                   weth dai (Finite 10) ''0xme'' (Provider 0) []))"
proof -
  have "toNumber unused_nearest (decimalPlaces 2 (toUnitAmount 9996000 6)) = Finite 10"
    using decimalPlaces_eqI [of "9996000 / 10 ^ 6" 1000 2] toNumber_short [of 10 1000 unused_nearest]
    by (simp add: toUnitAmount_exact DECIMAL_PLACES_def)
  then have balance:
    "\<not> js_lt (toNumber unused_nearest (decimalPlaces 2 (toUnitAmount 9996000 6))) (Finite 10)"
    by simp
  have "toNumber unused_nearest (decimalPlaces 2 (toUnitAmount 20000000 6)) = Finite 20"
    using rounded_whole [of 6 20000000 20] by (simp add: DECIMAL_PLACES_def)
  then have granted:
    "\<not> js_lt (toNumber unused_nearest (decimalPlaces 2 (toUnitAmount 20000000 6))) (Finite 10)"
    by simp
  have amount: "toBaseUnitAmount (Finite 10) 6 = Inr 10000000"
    by (simp add: toBaseUnitAmount_Inr)
  note r = steady_run_direct [OF balance granted amount]
  show ?thesis
    by (simp add: r) (simp add: steady_world_def)
qed

subsection \<open>The approval\<close>

text \<open>
  Claim C10. When \<open>performSwapAsync\<close> issues an approval, the token is the sell token, the
  spender is the \<^verbatim>\<open>erc20Proxy\<close> address of the Kovan deployment, the sender is
  \<open>fromAddress\<close>, and the approved amount is exactly the amount to sell times ten to the
  power of the decimals that the sell token answered in the read just before the approval:
  the sell amount in base units, not an unlimited allowance.
\<close>

theorem approval_spender_and_amount:
  fixes nearest addrs w buy sell amt sender prov
  defines "run \<equiv> performSwapAsync nearest addrs w buy sell amt sender prov []"
    and "proxy \<equiv> erc20Proxy (addrs Kovan)"
  defines "front \<equiv> [Ext (Decimals sell), Ext (BalanceOf sell sender), Ext (Allowance sell sender proxy)]"
  assumes "Ext (Approve token spender x owner) \<in> set (snd run)"
  shows "token = sell \<and> spender = proxy \<and> owner = sender \<and>
    (\<exists>d a rest.
        snd run = front @ [Ext (Decimals sell), Ext (Approve sell proxy x sender)] @ rest \<and>
        decimals_answer w front sell = Inr d \<and>
        amt = Finite a \<and> of_int x = a * 10 ^ d)"
proof (cases rule: front_cases [where w = w and buy = buy and sell = sell and amt = amt
        and sender = sender and prov = prov and addrs = addrs and nearest = nearest])
  case (proceeds h)
  obtain sfx where sfx: "snd run = h @ sfx"
    and ks: "prefix (kinds sfx) [KDecimals, KHttpGet, KSendTransaction, KAwaitTransactionSuccess]"
    using quote_and_fill_suffix [of w buy sell amt sender prov h] proceeds(2)
    by (auto simp: run_def)
  have "set (kinds sfx) \<subseteq> {KDecimals, KHttpGet, KSendTransaction, KAwaitTransactionSuccess}"
    using set_mono_prefix [OF ks] by simp
  then have no: "Ext (Approve token spender x owner) \<notin> set sfx"
    using kind_of_mem_kinds [of "Approve token spender x owner" sfx] by auto
  from proceeds(1) show ?thesis
  proof (cases rule: past_allowance_cases)
    case (allowed d b g)
    then show ?thesis
      using assms(4) sfx no by auto
  next
    case (approved d b g d' x' tx)
    then show ?thesis
      using assms(4) sfx no
      by (auto simp: toBaseUnitAmount_Inr proxy_def front_def zeroExDeployedAddresses_def)
  qed
qed (use assms(4) in \<open>auto simp: run_def toBaseUnitAmount_Inr proxy_def front_def
       zeroExDeployedAddresses_def\<close>)

theorem approval_spender_and_amount_witness:
  "Ext (Approve dai ''0xproxy'' 5000 ''0xme'') \<in>
     set (snd (performSwapAsync unused_nearest example_addresses (steady_world 3 10000 0) weth dai (Finite 5)
                 ''0xme'' (Provider 0) []))
   \<and> ''0xproxy'' = erc20Proxy (example_addresses Kovan)
   \<and> decimals_answer (steady_world 3 10000 0)
        [Ext (Decimals dai), Ext (BalanceOf dai ''0xme''),
         Ext (Allowance dai ''0xme'' (erc20Proxy (example_addresses Kovan)))] dai = Inr 3
   \<and> rat_of_int 5000 = 5 * 10 ^ 3"
proof -
  have issued: "Ext (Approve dai ''0xproxy'' 5000 ''0xme'') \<in>
     set (snd (performSwapAsync unused_nearest example_addresses (steady_world 3 10000 0) weth dai (Finite 5)
                 ''0xme'' (Provider 0) []))"
    by (simp add: steady_approving_5)
  from approval_spender_and_amount [OF issued] issued show ?thesis
    by (simp add: steady_world_def)
qed

text \<open>
  Claim C4 says that the approval is issued exactly when the allowance of the proxy is
  below the amount to sell, as the comment of step 2 asks. The code skips the approval for
  an allowance that rounds up to the amount: with 3 decimals, an allowance of 4999 base
  units (4.999 tokens) and an amount of 5, the allowance is below the amount, yet the run
  completes without any approval.
\<close>

theorem low_allowance_skips_approval:
  "decimals_answer (steady_world 3 10000 4999) [] dai = Inr 3
   \<and> allowance_answer (steady_world 3 10000 4999) [Ext (Decimals dai), Ext (BalanceOf dai ''0xme'')]
        dai ''0xme'' (erc20Proxy (example_addresses Kovan)) = Inr 4999
   \<and> rat_of_nat 4999 / 10 ^ 3 < 5
   \<and> fst (performSwapAsync unused_nearest example_addresses (steady_world 3 10000 4999) weth dai
            (Finite 5) ''0xme'' (Provider 0) []) = Inr ()
   \<and> KApprove \<notin> set (kinds (snd (performSwapAsync unused_nearest example_addresses
                                       (steady_world 3 10000 4999) weth dai (Finite 5) ''0xme''
                                       (Provider 0) [])))"
  by (simp add: steady_direct_5 kinds_def) (simp add: steady_world_def)

subsection \<open>The order of the external calls\<close>

text \<open>
  Claim C2, as amended. The external calls of every run are, in order, an initial segment
  of: decimals read, balance read, allowance read, then (only on the approving path) a
  second decimals read and the approval, then a further decimals read, the HTTP request,
  the submission of the transaction and the wait for its receipt. A run that completes
  performs one of the two whole sequences, hence exactly one HTTP request and exactly one
  submission. With the repeated decimals reads left out, no call of a later step precedes
  a call of an earlier step.
\<close>

theorem calls_in_order_with_decimals_reread:
  fixes nearest addrs w buy sell amt sender prov
  defines "run \<equiv> performSwapAsync nearest addrs w buy sell amt sender prov []"
  defines "direct \<equiv> [KDecimals, KBalanceOf, KAllowance,
                      KDecimals, KHttpGet, KSendTransaction, KAwaitTransactionSuccess]"
    and "approving \<equiv> [KDecimals, KBalanceOf, KAllowance, KDecimals, KApprove,
                        KDecimals, KHttpGet, KSendTransaction, KAwaitTransactionSuccess]"
  shows "(prefix (kinds (snd run)) direct \<or> prefix (kinds (snd run)) approving)
    \<and> (fst run = Inr () \<longrightarrow> kinds (snd run) = direct \<or> kinds (snd run) = approving)
    \<and> sorted (map step_of (filter (\<lambda>k. k \<noteq> KDecimals) (kinds (snd run))))"
proof (cases rule: front_cases [where w = w and buy = buy and sell = sell and amt = amt
        and sender = sender and prov = prov and addrs = addrs and nearest = nearest])
  case (proceeds h)
  obtain sfx where sfx: "snd run = h @ sfx"
    and ks: "if fst run = Inr ()
      then kinds sfx = [KDecimals, KHttpGet, KSendTransaction, KAwaitTransactionSuccess]
      else kinds sfx \<in> {[KDecimals], [KDecimals, KHttpGet], [KDecimals, KHttpGet, KSendTransaction],
             [KDecimals, KHttpGet, KSendTransaction, KAwaitTransactionSuccess]}"
    using quote_and_fill_kinds [of w buy sell amt sender prov h] proceeds(2)
    by (auto simp: run_def)
  from proceeds(1) have "kinds h = [KDecimals, KBalanceOf, KAllowance]
      \<or> kinds h = [KDecimals, KBalanceOf, KAllowance, KDecimals, KApprove]"
    by (cases rule: past_allowance_cases) (simp_all add: kinds_def)
  then show ?thesis
    using sfx ks
    by (auto simp: kinds_append direct_def approving_def split: if_splits)
qed (simp_all add: run_def kinds_def direct_def approving_def)

theorem calls_in_order_with_decimals_reread_witness:
  "fst (performSwapAsync unused_nearest example_addresses (steady_world 3 10000 0) weth dai (Finite 5)
          ''0xme'' (Provider 0) []) = Inr ()
   \<and> (kinds (snd (performSwapAsync unused_nearest example_addresses (steady_world 3 10000 0) weth dai (Finite 5)
          ''0xme'' (Provider 0) [])) =
         [KDecimals, KBalanceOf, KAllowance, KDecimals, KHttpGet, KSendTransaction,
          KAwaitTransactionSuccess]
       \<or> kinds (snd (performSwapAsync unused_nearest example_addresses (steady_world 3 10000 0) weth dai (Finite 5)
          ''0xme'' (Provider 0) [])) =
         [KDecimals, KBalanceOf, KAllowance, KDecimals, KApprove, KDecimals, KHttpGet,
          KSendTransaction, KAwaitTransactionSuccess])"
proof -
  have completed: "fst (performSwapAsync unused_nearest example_addresses (steady_world 3 10000 0) weth dai (Finite 5)
          ''0xme'' (Provider 0) []) = Inr ()"
    by (simp add: steady_approving_5)
  from calls_in_order_with_decimals_reread
    [THEN conjunct2, THEN conjunct1, rule_format, OF completed] completed
  show ?thesis
    by blast
qed

text \<open>
  Claim C2 as stated puts every blockchain read before the approval. That fails on the
  approving path: the decimals of the sell token are read again after the approval
  transaction, so the steps of the calls are not in ascending order.
\<close>

theorem approval_precedes_read_counterexample:
  "\<not> sorted (map step_of (kinds (snd (performSwapAsync unused_nearest example_addresses (steady_world 3 10000 0)
        weth dai (Finite 5) ''0xme'' (Provider 0) []))))"
  by (simp add: steady_approving_5 kinds_def)

subsection \<open>The quote request and the submitted transaction\<close>

text \<open>
  Claim C3. Every HTTP request of a run is a GET to the swap-quote endpoint whose
  parameters are exactly \<open>buyToken\<close> = the address of the buy token wrapper, \<open>sellToken\<close> =
  the address of the sell token wrapper, \<open>sellAmount\<close> = the amount to sell times ten to
  the power of the decimals answered by the read just before the request, written as a
  decimal string (an optional minus sign, digits only, no leading zero, the value read
  back is that whole number), and \<open>takerAddress\<close> = \<open>fromAddress\<close>; and there is no other
  HTTP request in the run, before or after.
\<close>

theorem quote_request_parameters:
  fixes nearest addrs w buy sell amt sender prov
  defines "run \<equiv> performSwapAsync nearest addrs w buy sell amt sender prov []"
  assumes "Ext (HttpGet url p) \<in> set (snd run)"
  shows "url = ''https://kovan.api.0x.org/swap/v0/quote'' \<and>
    (\<exists>h d a x rest.
        snd run = h @ [Ext (Decimals sell), Ext (HttpGet url p)] @ rest \<and>
        decimals_answer w h sell = Inr d \<and> amt = Finite a \<and> of_int x = a * 10 ^ d \<and>
        p = \<lparr>buyToken = address buy, sellToken = address sell,
             sellAmount = BigNumber_toString x, takerAddress = sender\<rparr> \<and>
        is_decimal_string (sellAmount p) x \<and>
        KHttpGet \<notin> set (kinds h) \<and> KHttpGet \<notin> set (kinds rest))"
proof (cases rule: front_cases [where w = w and buy = buy and sell = sell and amt = amt
        and sender = sender and prov = prov and addrs = addrs and nearest = nearest])
  case (proceeds h)
  have h: "KHttpGet \<notin> set (kinds h)"
    using past_allowance_kinds [OF proceeds(1)] by auto
  have issued: "Ext (HttpGet url p) \<in> set (snd (quote_and_fill w buy sell amt sender prov h))"
    using assms(2) proceeds(2) by (simp add: run_def)
  from quote_and_fill_get [OF issued h] obtain d a x rest where url: "url = ''https://kovan.api.0x.org/swap/v0/quote''"
    and tr: "snd (quote_and_fill w buy sell amt sender prov h) =
               h @ [Ext (Decimals sell), Ext (HttpGet url p)] @ rest"
    and d: "decimals_answer w h sell = Inr d"
    and a: "amt = Finite a" "of_int x = a * 10 ^ d"
    and p: "p = \<lparr>buyToken = address buy, sellToken = address sell,
             sellAmount = BigNumber_toString x, takerAddress = sender\<rparr>"
    and rest: "KHttpGet \<notin> set (kinds rest)"
    by blast
  have "is_decimal_string (sellAmount p) x"
    by (simp add: p BigNumber_toString_is_decimal)
  moreover have "snd run = h @ [Ext (Decimals sell), Ext (HttpGet url p)] @ rest"
    using tr proceeds(2) by (simp add: run_def)
  ultimately show ?thesis
    using url d a p h rest by blast
qed (use assms(2) in \<open>simp_all add: run_def\<close>)

theorem quote_request_parameters_witness:
  "Ext (HttpGet ''https://kovan.api.0x.org/swap/v0/quote''
          \<lparr>buyToken = ''0xweth'', sellToken = ''0xdai'', sellAmount = ''5000'',
           takerAddress = ''0xme''\<rparr>) \<in>
     set (snd (performSwapAsync unused_nearest example_addresses (steady_world 3 10000 10000) weth dai
                 (Finite 5) ''0xme'' (Provider 0) []))
   \<and> (\<exists>h d a x rest.
         snd (performSwapAsync unused_nearest example_addresses (steady_world 3 10000 10000) weth dai
                (Finite 5) ''0xme'' (Provider 0) []) =
           h @ [Ext (Decimals dai),
                Ext (HttpGet ''https://kovan.api.0x.org/swap/v0/quote''
                       \<lparr>buyToken = ''0xweth'', sellToken = ''0xdai'', sellAmount = ''5000'',
                        takerAddress = ''0xme''\<rparr>)] @ rest \<and>
         decimals_answer (steady_world 3 10000 10000) h dai = Inr d \<and>
         Finite 5 = Finite a \<and> rat_of_int x = a * 10 ^ d \<and>
         ''5000'' = BigNumber_toString x \<and> is_decimal_string ''5000'' x)"
proof -
  have issued: "Ext (HttpGet ''https://kovan.api.0x.org/swap/v0/quote''
          \<lparr>buyToken = ''0xweth'', sellToken = ''0xdai'', sellAmount = ''5000'',
           takerAddress = ''0xme''\<rparr>) \<in>
     set (snd (performSwapAsync unused_nearest example_addresses (steady_world 3 10000 10000) weth dai
                 (Finite 5) ''0xme'' (Provider 0) []))"
    by (simp add: steady_direct_5 weth_def dai_def)
  from quote_request_parameters [OF issued, THEN conjunct2] obtain h d a x rest where
    "snd (performSwapAsync unused_nearest example_addresses (steady_world 3 10000 10000) weth dai
            (Finite 5) ''0xme'' (Provider 0) []) =
           h @ [Ext (Decimals dai),
                Ext (HttpGet ''https://kovan.api.0x.org/swap/v0/quote''
                       \<lparr>buyToken = ''0xweth'', sellToken = ''0xdai'', sellAmount = ''5000'',
                        takerAddress = ''0xme''\<rparr>)] @ rest"
    "decimals_answer (steady_world 3 10000 10000) h dai = Inr d"
    "Finite 5 = Finite a" "rat_of_int x = a * 10 ^ d"
    "\<lparr>buyToken = ''0xweth'', sellToken = ''0xdai'', sellAmount = ''5000'',
           takerAddress = ''0xme''\<rparr> =
     \<lparr>buyToken = address weth, sellToken = address dai,
             sellAmount = BigNumber_toString x, takerAddress = ''0xme''\<rparr>"
    "is_decimal_string
       (sellAmount \<lparr>buyToken = ''0xweth'', sellToken = ''0xdai'', sellAmount = ''5000'',
           takerAddress = ''0xme''\<rparr>) x"
    by blast
  with issued show ?thesis
    by (intro conjI exI [of _ h] exI [of _ d] exI [of _ a] exI [of _ x] exI [of _ rest]) simp_all
qed

text \<open>
  Claim C5. Every transaction that a run submits goes through the given provider, follows
  the HTTP request with only console output in between, and has \<open>to\<close>, \<open>data\<close>, \<open>gas\<close>,
  \<open>gasPrice\<close> and \<open>value\<close> equal to those of the quote that the HTTP request answered and
  \<open>from\<close> equal to \<open>fromAddress\<close>. No submission precedes it and only the wait for the
  receipt follows it (so an approval, if any, came before), and a run that completes has
  such a submission: exactly one per successful run.
\<close>

theorem submitted_transaction_fields:
  fixes nearest addrs w buy sell amt sender prov
  defines "run \<equiv> performSwapAsync nearest addrs w buy sell amt sender prov []"
  shows "(\<forall>client tx. Ext (SendTransaction client tx) \<in> set (snd run) \<longrightarrow>
      client = prov \<and>
      (\<exists>h p q rest.
          snd run =
            h @ [Ext (HttpGet ''https://kovan.api.0x.org/swap/v0/quote'' p),
                 ConsoleLog (LogText ''Ethereum transaction generated by the 0x API: ''),
                 ConsoleLog (LogTxData q),
                 ConsoleLog (LogText ''Orders used to perform the swap ''),
                 ConsoleLog (LogOrders (orders q)),
                 Ext (SendTransaction prov tx)] @ rest \<and>
          get_answer w h ''https://kovan.api.0x.org/swap/v0/quote'' p = Inr q \<and>
          tx = \<lparr>to = to q, data = data q, gas = gas q, gasPrice = gasPrice q,
                value' = value' q, from' = sender\<rparr> \<and>
          KSendTransaction \<notin> set (kinds h) \<and>
          set (kinds rest) \<subseteq> {KAwaitTransactionSuccess}))
    \<and> (fst run = Inr () \<longrightarrow> (\<exists>tx. Ext (SendTransaction prov tx) \<in> set (snd run)))"
proof (cases rule: front_cases [where w = w and buy = buy and sell = sell and amt = amt
        and sender = sender and prov = prov and addrs = addrs and nearest = nearest])
  case (proceeds h)
  have h: "KSendTransaction \<notin> set (kinds h)"
    using past_allowance_kinds [OF proceeds(1)] by auto
  then have h': "KSendTransaction \<notin> set (kinds (h @ [Ext (Decimals sell)]))"
    by (simp add: kinds_append) (simp add: kinds_def)
  have "\<exists>tx. Ext (SendTransaction prov tx) \<in> set (snd run)" if "fst run = Inr ()"
    using quote_and_fill_suffix [of w buy sell amt sender prov h] that proceeds(2)
    by (auto simp: run_def)
  moreover have "client = prov \<and>
      (\<exists>h p q rest.
          snd run =
            h @ [Ext (HttpGet ''https://kovan.api.0x.org/swap/v0/quote'' p),
                 ConsoleLog (LogText ''Ethereum transaction generated by the 0x API: ''),
                 ConsoleLog (LogTxData q),
                 ConsoleLog (LogText ''Orders used to perform the swap ''),
                 ConsoleLog (LogOrders (orders q)),
                 Ext (SendTransaction prov tx)] @ rest \<and>
          get_answer w h ''https://kovan.api.0x.org/swap/v0/quote'' p = Inr q \<and>
          tx = \<lparr>to = to q, data = data q, gas = gas q, gasPrice = gasPrice q,
                value' = value' q, from' = sender\<rparr> \<and>
          KSendTransaction \<notin> set (kinds h) \<and>
          set (kinds rest) \<subseteq> {KAwaitTransactionSuccess})"
    if "Ext (SendTransaction client tx) \<in> set (snd run)" for client tx
    using quote_and_fill_sent [OF _ h, of client tx w buy sell amt sender prov] that proceeds(2) h'
    unfolding run_def by metis
  ultimately show ?thesis
    by blast
qed (simp_all add: run_def)

theorem submitted_transaction_fields_witness:
  "Ext (SendTransaction (Provider 0)
          \<lparr>to = ''0xexchange'', data = ''0xd9627aa4'', gas = ''500000'',
           gasPrice = ''2000000000'', value' = ''0'', from' = ''0xme''\<rparr>) \<in>
     set (snd (performSwapAsync unused_nearest example_addresses (steady_world 3 10000 10000) weth dai (Finite 5)
                 ''0xme'' (Provider 0) []))
   \<and> (\<exists>h p q.
         get_answer (steady_world 3 10000 10000) h ''https://kovan.api.0x.org/swap/v0/quote'' p = Inr q \<and>
         \<lparr>to = ''0xexchange'', data = ''0xd9627aa4'', gas = ''500000'',
           gasPrice = ''2000000000'', value' = ''0'', from' = ''0xme''\<rparr> =
         \<lparr>to = to q, data = data q, gas = gas q, gasPrice = gasPrice q,
           value' = value' q, from' = ''0xme''\<rparr>)"
proof -
  have sent: "Ext (SendTransaction (Provider 0)
          \<lparr>to = ''0xexchange'', data = ''0xd9627aa4'', gas = ''500000'',
           gasPrice = ''2000000000'', value' = ''0'', from' = ''0xme''\<rparr>) \<in>
     set (snd (performSwapAsync unused_nearest example_addresses (steady_world 3 10000 10000) weth dai (Finite 5)
                 ''0xme'' (Provider 0) []))"
    by (simp add: steady_direct_5 example_quote_def)
  from submitted_transaction_fields [THEN conjunct1, rule_format, OF sent] sent
  show ?thesis
    by blast
qed

subsection \<open>Failures other than the balance check, and determinism\<close>

text \<open>
  Claim C6. Every failure other than the balance check ends the run on the spot with
  that very failure:
  \<^item> whenever the world rejects an external call of a run with \<open>r\<close> (a read, the approval,
    the HTTP request, the submission or the wait for the receipt), the run ends with
    exactly \<open>Rejected r\<close>, the rejected call is its last event and no earlier call was
    rejected; and a run that ends with \<open>Rejected r\<close> had a call rejected with \<open>r\<close>;
  \<^item> whenever a repeated decimals read answers \<open>d\<close> and the amount times \<open>10 ^ d\<close> is not a
    whole number (or the amount is not finite), so that \<^verbatim>\<open>toBaseUnitAmount\<close> throws, the
    run ends with that throw and the read is its last event; and a run that ends with
    that throw ends at such a read.
  Nothing catches, replaces or follows either kind of failure.
\<close>

theorem failures_propagate_unchanged:
  fixes nearest addrs w buy sell amt sender prov
  defines "run \<equiv> performSwapAsync nearest addrs w buy sell amt sender prov []"
  shows "(\<forall>r. Inl r \<in> set (answers w [] (snd run)) \<longrightarrow>
            fst run = Inl (Rejected r) \<and>
            (\<exists>c. last (snd run) = Ext c \<and> world_answer w (butlast (snd run)) c = Inl r) \<and>
            (\<forall>r'. Inl r' \<notin> set (answers w [] (butlast (snd run)))))
    \<and> (\<forall>r. fst run = Inl (Rejected r) \<longrightarrow> Inl r \<in> set (answers w [] (snd run)))
    \<and> (\<forall>h d. h \<noteq> [] \<and> prefix (h @ [Ext (Decimals sell)]) (snd run) \<and>
            decimals_answer w h sell = Inr d \<and>
            \<not> (\<exists>a x. amt = Finite a \<and> of_int x = a * 10 ^ d) \<longrightarrow>
            run = (Inl (InvalidUnitAmount amt), h @ [Ext (Decimals sell)]))
    \<and> (\<forall>n. fst run = Inl (InvalidUnitAmount n) \<longrightarrow>
          n = amt \<and> last (snd run) = Ext (Decimals sell) \<and> butlast (snd run) \<noteq> [] \<and>
          (\<exists>d. decimals_answer w (butlast (snd run)) sell = Inr d \<and>
               \<not> (\<exists>a x. amt = Finite a \<and> of_int x = a * 10 ^ d)))"
  unfolding run_def
  using rejection_ends_run [of w nearest addrs buy sell amt sender prov]
    conversion_failure_ends_run [of sell nearest addrs w buy amt sender prov]
  by (intro conjI) (elim conjE, assumption)+

theorem failures_propagate_unchanged_witness:
  "Inl ''503'' \<in> set (answers quote_down_world []
      (snd (performSwapAsync unused_nearest example_addresses quote_down_world weth dai (Finite 5)
              ''0xme'' (Provider 0) [])))
   \<and> fst (performSwapAsync unused_nearest example_addresses quote_down_world weth dai (Finite 5)
            ''0xme'' (Provider 0) []) = Inl (Rejected ''503'')
   \<and> prefix ([Ext (Decimals dai), Ext (BalanceOf dai ''0xme''), Ext (Allowance dai ''0xme'' ''0xproxy'')]
              @ [Ext (Decimals dai)])
        (snd (performSwapAsync unused_nearest example_addresses (steady_world 3 10000 10000) weth dai
                (Finite (1 / 2000)) ''0xme'' (Provider 0) []))
   \<and> decimals_answer (steady_world 3 10000 10000)
        [Ext (Decimals dai), Ext (BalanceOf dai ''0xme''), Ext (Allowance dai ''0xme'' ''0xproxy'')] dai
        = Inr 3
   \<and> \<not> (\<exists>a x. Finite (1 / 2000) = Finite a \<and> rat_of_int x = a * 10 ^ 3)
   \<and> fst (performSwapAsync unused_nearest example_addresses (steady_world 3 10000 10000) weth dai
            (Finite (1 / 2000)) ''0xme'' (Provider 0) []) = Inl (InvalidUnitAmount (Finite (1 / 2000)))"
proof -
  have rejected: "Inl ''503'' \<in> set (answers quote_down_world []
      (snd (performSwapAsync unused_nearest example_addresses quote_down_world weth dai (Finite 5)
              ''0xme'' (Provider 0) [])))"
    by (simp add: quote_down_run) (simp add: quote_down_world_def steady_world_def)
  have conversion: "[Ext (Decimals dai), Ext (BalanceOf dai ''0xme''), Ext (Allowance dai ''0xme'' ''0xproxy'')]
        \<noteq> []
      \<and> prefix ([Ext (Decimals dai), Ext (BalanceOf dai ''0xme''), Ext (Allowance dai ''0xme'' ''0xproxy'')]
              @ [Ext (Decimals dai)])
        (snd (performSwapAsync unused_nearest example_addresses (steady_world 3 10000 10000) weth dai
                (Finite (1 / 2000)) ''0xme'' (Provider 0) []))
      \<and> decimals_answer (steady_world 3 10000 10000)
        [Ext (Decimals dai), Ext (BalanceOf dai ''0xme''), Ext (Allowance dai ''0xme'' ''0xproxy'')] dai
        = Inr 3
      \<and> \<not> (\<exists>a x. Finite (1 / 2000) = Finite a \<and> rat_of_int x = a * 10 ^ 3)"
    using half_not_whole by (simp add: tiny_amount_run) (simp add: steady_world_def)
  from failures_propagate_unchanged [THEN conjunct1, rule_format, OF rejected]
    failures_propagate_unchanged [THEN conjunct2, THEN conjunct2, THEN conjunct1, rule_format,
      OF conversion]
    rejected conversion
  show ?thesis
    by simp
qed

text \<open>
  Claim C7. A run is determined by its arguments and by the answers to its external
  calls: if a second world gives, to every external call of the run in the first world
  and at the same point of the run, the same answer as the first world, then the run in
  the second world issues the same events in the same order, with the same parameters,
  and has the same outcome. Calls are strictly sequential in the model as in the source,
  where every call is awaited: the answer to a call is fixed before the next event.
\<close>

theorem same_answers_same_run:
  fixes nearest addrs w w' buy sell amt sender prov
  defines "run \<equiv> performSwapAsync nearest addrs w buy sell amt sender prov []"
    and "run' \<equiv> performSwapAsync nearest addrs w' buy sell amt sender prov []"
  assumes "answers w' [] (snd run) = answers w [] (snd run)"
  shows "run' = run"
proof (cases rule: front_cases [where w = w and buy = buy and sell = sell and amt = amt
        and sender = sender and prov = prov and addrs = addrs and nearest = nearest])
  case (proceeds h)
  obtain sfx where sfx: "snd (quote_and_fill w buy sell amt sender prov h) = h @ sfx"
    using quote_and_fill_suffix [of w buy sell amt sender prov h] by blast
  with assms(3) proceeds(2)
  have "answers w' [] h @ answers w' h sfx = answers w [] h @ answers w h sfx"
    by (simp add: run_def answers_append)
  then have same: "answers w' [] h = answers w [] h" "answers w' h sfx = answers w h sfx"
    by (simp_all add: length_answers)
  have "run' = quote_and_fill w' buy sell amt sender prov h"
    unfolding run'_def
    by (rule past_allowance_run [OF past_allowance_transfer [OF proceeds(1) same(1)]])
  also have "\<dots> = quote_and_fill w buy sell amt sender prov h"
    by (rule quote_and_fill_same) (simp add: sfx same(2))
  finally show ?thesis
    using proceeds(2) by (simp add: run_def)
qed (use assms(3) in \<open>simp_all add: run_def run'_def performSwapAsync_steps [where w = w' and nearest = nearest]
       check_balance_run [where w = w' and nearest = nearest] ensure_allowance_run [where w = w' and nearest = nearest] await_then_def Let_def\<close>)

theorem same_answers_same_run_witness:
  "answers approval_refusing_world []
      (snd (performSwapAsync unused_nearest example_addresses (steady_world 3 10000 10000) weth dai (Finite 5)
              ''0xme'' (Provider 0) [])) =
   answers (steady_world 3 10000 10000) []
      (snd (performSwapAsync unused_nearest example_addresses (steady_world 3 10000 10000) weth dai (Finite 5)
              ''0xme'' (Provider 0) []))
   \<and> approval_refusing_world \<noteq> steady_world 3 10000 10000
   \<and> performSwapAsync unused_nearest example_addresses approval_refusing_world weth dai (Finite 5)
        ''0xme'' (Provider 0) [] =
      performSwapAsync unused_nearest example_addresses (steady_world 3 10000 10000) weth dai (Finite 5)
        ''0xme'' (Provider 0) []"
proof -
  have same: "answers approval_refusing_world []
      (snd (performSwapAsync unused_nearest example_addresses (steady_world 3 10000 10000) weth dai (Finite 5)
              ''0xme'' (Provider 0) [])) =
   answers (steady_world 3 10000 10000) []
      (snd (performSwapAsync unused_nearest example_addresses (steady_world 3 10000 10000) weth dai (Finite 5)
              ''0xme'' (Provider 0) []))"
    by (simp add: steady_direct_5) (simp add: approval_refusing_world_def steady_world_def)
  have "approve_answer approval_refusing_world [] dai [] 0 [] \<noteq>
        approve_answer (steady_world 3 10000 10000) [] dai [] 0 []"
    by (simp add: approval_refusing_world_def steady_world_def)
  then have different: "approval_refusing_world \<noteq> steady_world 3 10000 10000"
    by metis
  from same_answers_same_run [OF same] same different show ?thesis
    by blast
qed

end
